theory Spec2Isabelle
  imports Complex_Main "HOL-Library.Multiset"
begin

section \<open>JavaScript numbers\<close>

text \<open>
  The scraper (\<^verbatim>\<open>coa-scraper.cjs\<close>) computes with JavaScript numbers, which are IEEE 754
  doubles. A finite number is modelled as the rational that it denotes, and every operation
  that rounds in JavaScript rounds here: \<open>fl q\<close> is the double nearest to the rational \<open>q\<close>,
  a tie going to the even significand. \<open>expo q\<close> is the exponent \<open>e\<close> with
  \<open>2^e \<le> q < 2^(e+1)\<close>, and the doubles of that binade are the multiples of \<open>2^(e-52)\<close>.
  The exponent is not bounded in \<open>fl\<close>: doubles have 53 significant bits for magnitudes
  from \<open>2^-1022\<close> up to \<open>2^1024\<close>, and the numbers that the scraper reads and computes
  are zero or well inside that range. \<^verbatim>\<open>null\<close> is \<open>None\<close> of an option type.
\<close>

lemma ceiling_half_less:
  fixes t :: rat
  assumes "1 < t"
  shows "\<lceil>t / 2\<rceil> < \<lceil>t\<rceil>"
proof (cases "t \<le> 2")
  case True
  have "\<lceil>t / 2\<rceil> \<le> 1" using True by (simp add: ceiling_le_iff)
  moreover have "1 < \<lceil>t\<rceil>" using assms by (simp add: less_ceiling_iff)
  ultimately show ?thesis by (rule le_less_trans)
next
  case False
  then have "t / 2 \<le> t - 1" by simp
  then have "\<lceil>t / 2\<rceil> \<le> \<lceil>t - 1\<rceil>" by (rule ceiling_mono)
  also have "\<dots> = \<lceil>t\<rceil> - 1" by simp
  finally show ?thesis by simp
qed

function expo_hi :: "rat \<Rightarrow> int" where
  "expo_hi q = (if 2 \<le> q then expo_hi (q / 2) + 1 else 0)"
  by pat_completeness auto
termination
proof (relation "measure (\<lambda>q. nat \<lceil>q\<rceil>)")
  show "wf (measure (\<lambda>q::rat. nat \<lceil>q\<rceil>))" by simp
next
  fix q :: rat
  assume q: "2 \<le> q"
  then have "\<lceil>q / 2\<rceil> < \<lceil>q\<rceil>" by (intro ceiling_half_less) simp
  moreover have "0 < \<lceil>q\<rceil>" using q by (simp add: less_ceiling_iff)
  ultimately have "nat \<lceil>q / 2\<rceil> < nat \<lceil>q\<rceil>" by (simp only: nat_less_iff nat_mono_iff)
  then show "(q / 2, q) \<in> measure (\<lambda>q. nat \<lceil>q\<rceil>)" by (simp only: in_measure)
qed

function expo_lo :: "rat \<Rightarrow> int" where
  "expo_lo q = (if 0 < q \<and> q < 1 then expo_lo (q * 2) - 1 else 0)"
  by pat_completeness auto
termination
proof (relation "measure (\<lambda>q. nat \<lceil>1 / q\<rceil>)")
  show "wf (measure (\<lambda>q::rat. nat \<lceil>1 / q\<rceil>))" by simp
next
  fix q :: rat
  assume q: "0 < q \<and> q < 1"
  then have t: "1 < 1 / q" by simp
  then have "\<lceil>1 / q / 2\<rceil> < \<lceil>1 / q\<rceil>" by (rule ceiling_half_less)
  moreover have "0 < \<lceil>1 / q\<rceil>" using t by (simp only: less_ceiling_iff)
  moreover have "1 / (q * 2) = 1 / q / 2" by simp
  ultimately have "nat \<lceil>1 / (q * 2)\<rceil> < nat \<lceil>1 / q\<rceil>" by (simp only: nat_mono_iff)
  then show "(q * 2, q) \<in> measure (\<lambda>q. nat \<lceil>1 / q\<rceil>)" by (simp only: in_measure)
qed

declare expo_hi.simps [simp del] expo_lo.simps [simp del]

definition expo :: "rat \<Rightarrow> int" where
  "expo q = (if 1 \<le> q then expo_hi q else expo_lo q)"

text \<open>The integer nearest to \<open>m\<close>, the even one of two that are equally near.\<close>

definition round_even :: "rat \<Rightarrow> int" where
  "round_even m =
     (if m - of_int \<lfloor>m\<rfloor> < 1 / 2 then \<lfloor>m\<rfloor>
      else if 1 / 2 < m - of_int \<lfloor>m\<rfloor> then \<lfloor>m\<rfloor> + 1
      else if even \<lfloor>m\<rfloor> then \<lfloor>m\<rfloor> else \<lfloor>m\<rfloor> + 1)"

definition ulp :: "rat \<Rightarrow> rat" where
  "ulp q = 2 powi (expo \<bar>q\<bar> - 52)"

definition fl :: "rat \<Rightarrow> rat" where
  "fl q = (if q = 0 then 0 else sgn q * (of_int (round_even (\<bar>q\<bar> / ulp q)) * ulp q))"

text \<open>\<^verbatim>\<open>x * y\<close>, \<^verbatim>\<open>x + y\<close> and \<^verbatim>\<open>x / y\<close> on two finite numbers (\<open>y\<close> not zero).\<close>

definition dmul :: "rat \<Rightarrow> rat \<Rightarrow> rat" where
  "dmul x y = fl (x * y)"

definition dadd :: "rat \<Rightarrow> rat \<Rightarrow> rat" where
  "dadd x y = fl (x + y)"

definition ddiv :: "rat \<Rightarrow> rat \<Rightarrow> rat" where
  "ddiv x y = fl (x / y)"

text \<open>A number: finite, or one of the three values that are not.\<close>

datatype jsnum = Fin rat | PInf | NInf | NaN

text \<open>\<^verbatim>\<open>v > c\<close>, \<^verbatim>\<open>v <= c\<close> and \<^verbatim>\<open>v / c\<close> for a positive finite constant \<open>c\<close>.\<close>

fun js_gt :: "jsnum \<Rightarrow> rat \<Rightarrow> bool" where
  "js_gt (Fin x) c = (x > c)"
| "js_gt PInf c = True"
| "js_gt NInf c = False"
| "js_gt NaN c = False"

fun js_le :: "jsnum \<Rightarrow> rat \<Rightarrow> bool" where
  "js_le (Fin x) c = (x \<le> c)"
| "js_le PInf c = False"
| "js_le NInf c = True"
| "js_le NaN c = False"

fun js_div :: "jsnum \<Rightarrow> rat \<Rightarrow> jsnum" where
  "js_div (Fin x) c = Fin (ddiv x c)"
| "js_div PInf c = PInf"
| "js_div NInf c = NInf"
| "js_div NaN c = NaN"

text \<open>\<^verbatim>\<open>x == y\<close> on two numbers: \<^verbatim>\<open>NaN\<close> equals nothing.\<close>

fun js_eq :: "jsnum \<Rightarrow> jsnum \<Rightarrow> bool" where
  "js_eq NaN y = False"
| "js_eq x NaN = False"
| "js_eq x y = (x = y)"

text \<open>
  A rounded number of magnitude at least 1 is at most one unit in the last place, so at
  most its own magnitude, away from the exact one.
\<close>

lemma expo_hi_le: "1 \<le> q \<Longrightarrow> 2 powi expo_hi q \<le> q"
proof (induction q rule: expo_hi.induct)
  case (1 q)
  show ?case
  proof (cases "2 \<le> q")
    case True
    then have "2 powi expo_hi (q / 2) \<le> q / 2" using 1 by simp
    moreover have "expo_hi q = expo_hi (q / 2) + 1" using True by (subst expo_hi.simps) simp
    moreover have "(2::rat) powi (expo_hi (q / 2) + 1) = 2 powi expo_hi (q / 2) * 2"
      by (rule power_int_add_1) simp
    ultimately show ?thesis by simp
  next
    case False
    then have "expo_hi q = 0" by (subst expo_hi.simps) simp
    then show ?thesis using 1 by simp
  qed
qed

lemma round_even_le: "of_int (round_even m) \<le> m + 1"
proof -
  have "of_int \<lfloor>m\<rfloor> \<le> m" by (rule of_int_floor_le)
  then have "of_int \<lfloor>m\<rfloor> \<le> m + 1" "of_int (\<lfloor>m\<rfloor> + 1) \<le> m + 1"
    by (linarith, simp only: of_int_add of_int_1 add_le_cancel_right)
  then show ?thesis unfolding round_even_def by (auto simp only: split: if_split)
qed

lemma fl_le_twice:
  assumes "1 \<le> x"
  shows "fl x \<le> 2 * x"
proof -
  have u0: "0 < ulp x" by (simp add: ulp_def)
  have "ulp x = 2 powi (expo_hi x - 52)" using assms by (simp add: ulp_def expo_def)
  also have "\<dots> \<le> 2 powi expo_hi x" by (rule power_int_increasing) simp_all
  also have "\<dots> \<le> x" using assms by (rule expo_hi_le)
  finally have ux: "ulp x \<le> x" .
  have "fl x = of_int (round_even (x / ulp x)) * ulp x"
    using assms by (simp add: fl_def)
  also have "\<dots> \<le> (x / ulp x + 1) * ulp x"
    by (rule mult_right_mono [OF round_even_le]) (use u0 in simp)
  also have "\<dots> = x + ulp x" using u0 by (simp add: field_simps)
  finally show ?thesis using ux by simp
qed

lemma ddiv10_less: "100 < v \<Longrightarrow> ddiv v 10 \<le> v - 1"
proof -
  assume h: "100 < v"
  then have "fl (v / 10) \<le> 2 * (v / 10)" by (intro fl_le_twice) simp
  then show ?thesis using h by (simp add: ddiv_def)
qed

section \<open>fixPercentOverflow\<close>

text \<open>
  \<^verbatim>\<open>
  function fixPercentOverflow(v) {
    if (v == null) return v;
    while (v > 100) v = v / 10;
    return v;
  }
  \<close>
  The loop may run forever, so it is a partial function: \<open>None\<close> is "does not return".
\<close>

partial_function (option) fixLoop :: "jsnum \<Rightarrow> jsnum option" where
  [code]: "fixLoop v = (if js_gt v 100 then fixLoop (js_div v 10) else Some v)"

definition fixPercentOverflow :: "jsnum option \<Rightarrow> jsnum option option" where
  "fixPercentOverflow v =
     (case v of None \<Rightarrow> Some None | Some x \<Rightarrow> map_option Some (fixLoop x))"

text \<open>The same loop on a finite number, as a total function by well-founded recursion.\<close>

function fixFinite :: "rat \<Rightarrow> rat" where
  "fixFinite v = (if v > 100 then fixFinite (ddiv v 10) else v)"
  by pat_completeness auto
termination
proof (relation "measure (\<lambda>v. nat \<lceil>v\<rceil>)")
  show "wf (measure (\<lambda>v::rat. nat \<lceil>v\<rceil>))" by simp
next
  fix v :: rat
  assume h: "100 < v"
  then have "ddiv v 10 \<le> v - 1" by (rule ddiv10_less)
  then have "\<lceil>ddiv v 10\<rceil> \<le> \<lceil>v - 1\<rceil>" by (rule ceiling_mono)
  also have "\<dots> = \<lceil>v\<rceil> - 1" by simp
  finally have "\<lceil>ddiv v 10\<rceil> < \<lceil>v\<rceil>" by simp
  moreover have "0 < \<lceil>v\<rceil>" using h by (simp add: ceiling_less_iff)
  ultimately show "(ddiv v 10, v) \<in> measure (\<lambda>v. nat \<lceil>v\<rceil>)" by simp
qed

declare fixFinite.simps [simp del]

section \<open>JavaScript strings\<close>

text \<open>
  A JavaScript string is a list of UTF-16 code units. The source uses four characters
  outside ASCII: the micro sign (U+00B5) and the Greek letters alpha (U+03B1), beta (U+03B2)
  and capital delta (U+0394). Where the source is quoted below, they are written
  \<^verbatim>\<open>\u00B5\<close>, \<^verbatim>\<open>\u03B1\<close>, \<^verbatim>\<open>\u03B2\<close> and \<^verbatim>\<open>\u0394\<close>.
\<close>

type_synonym jschar = nat
type_synonym jsstring = "jschar list"

definition str :: "string \<Rightarrow> jsstring" where
  "str = map of_char"

definition micro :: jschar where "micro = 0xB5"
definition alpha :: jschar where "alpha = 0x3B1"
definition beta :: jschar where "beta = 0x3B2"
definition Delta :: jschar where "Delta = 0x394"

text \<open>
  Case conversion of one code unit. The mapping covers ASCII, the letters of Latin-1 whose
  other case is in Latin-1, the micro sign and the Greek block; other code units are left
  as they are.
\<close>

definition toUpperUnit :: "jschar \<Rightarrow> jschar" where
  "toUpperUnit c =
     (if 97 \<le> c \<and> c \<le> 122 then c - 32
      else if c = 0xB5 then 0x39C
      else if 0xE0 \<le> c \<and> c \<le> 0xFE \<and> c \<noteq> 0xF7 then c - 32
      else if 0x3B1 \<le> c \<and> c \<le> 0x3C9 \<and> c \<noteq> 0x3C2 then c - 32
      else if c = 0x3C2 then 0x3A3
      else c)"

definition toLowerUnit :: "jschar \<Rightarrow> jschar" where
  "toLowerUnit c =
     (if 65 \<le> c \<and> c \<le> 90 then c + 32
      else if 0xC0 \<le> c \<and> c \<le> 0xDE \<and> c \<noteq> 0xD7 then c + 32
      else if 0x391 \<le> c \<and> c \<le> 0x3A9 \<and> c \<noteq> 0x3A2 then c + 32
      else c)"

definition toLowerCase :: "jsstring \<Rightarrow> jsstring" where
  "toLowerCase s = map toLowerUnit s"

definition toUpperCase :: "jsstring \<Rightarrow> jsstring" where
  "toUpperCase s = map toUpperUnit s"

type_synonym ranges = "(jschar \<times> jschar) list"

definition in_ranges :: "ranges \<Rightarrow> jschar \<Rightarrow> bool" where
  "in_ranges rs c = list_ex (\<lambda>(lo, hi). lo \<le> c \<and> c \<le> hi) rs"

definition only :: "char \<Rightarrow> jschar \<times> jschar" where
  "only a = (of_char a, of_char a)"

definition rng :: "char \<Rightarrow> char \<Rightarrow> jschar \<times> jschar" where
  "rng a b = (of_char a, of_char b)"

text \<open>The classes \<^verbatim>\<open>\s\<close>, \<^verbatim>\<open>\d\<close> and \<^verbatim>\<open>\w\<close>.\<close>

definition ws :: ranges where
  "ws = [(9, 13), (32, 32), (160, 160), (0x1680, 0x1680), (0x2000, 0x200A),
         (0x2028, 0x2029), (0x202F, 0x202F), (0x205F, 0x205F), (0x3000, 0x3000),
         (0xFEFF, 0xFEFF)]"

definition digit :: ranges where
  "digit = [(48, 57)]"

definition wordc :: ranges where
  "wordc = [(65, 90), (97, 122), (48, 57), (95, 95)]"

text \<open>\<^verbatim>\<open>s.trim()\<close> and \<^verbatim>\<open>s.includes(t)\<close>.\<close>

definition trim :: "jsstring \<Rightarrow> jsstring" where
  "trim s = rev (dropWhile (in_ranges ws) (rev (dropWhile (in_ranges ws) s)))"

fun starts_with :: "jsstring \<Rightarrow> jsstring \<Rightarrow> bool" where
  "starts_with s [] = True"
| "starts_with [] (y # ys) = False"
| "starts_with (x # xs) (y # ys) = (x = y \<and> starts_with xs ys)"

fun js_includes :: "jsstring \<Rightarrow> jsstring \<Rightarrow> bool" where
  "js_includes [] t = (t = [])"
| "js_includes (x # xs) t = (starts_with (x # xs) t \<or> js_includes xs t)"

section \<open>Regular expressions\<close>

text \<open>
  The regular expressions of the source, with the backtracking semantics of ECMAScript:
  \<open>matches\<close> lists the states in which a pattern can stop, in the order in which the
  backtracking matcher tries them, so the head of the list is the match that JavaScript
  reports. \<open>RRep lo hi greedy r\<close> is a quantifier (\<open>hi = None\<close>: unbounded), \<open>RGrp k r\<close>
  the capture group \<open>k\<close>, \<open>RBnd\<close> is \<^verbatim>\<open>\b\<close>, \<open>REnd\<close> is \<^verbatim>\<open>$\<close> and \<open>RLook r\<close> the
  lookahead \<^verbatim>\<open>(?=r)\<close>. The first argument of \<open>matches\<close> is the flag \<^verbatim>\<open>i\<close>. A state is
  the code unit before the position (for \<^verbatim>\<open>\b\<close>), the rest of the input and the groups.
  A quantifier that has done its \<open>lo\<close> turns drops a turn that consumes nothing, as the
  specification does. No pattern of the source has a group in a part that is repeated more
  than once, so the reset of groups at each turn is not modelled.
\<close>

datatype re =
    RChr jschar
  | RCls bool ranges
  | RDot
  | REps
  | RSeq re re
  | RAlt re re
  | RRep nat "nat option" bool re
  | RGrp nat re
  | RBnd
  | REnd
  | RLook re

fun re_size :: "re \<Rightarrow> nat" where
  "re_size (RSeq a b) = Suc (re_size a + re_size b)"
| "re_size (RAlt a b) = Suc (re_size a + re_size b)"
| "re_size (RRep lo hi g a) = Suc (re_size a)"
| "re_size (RGrp k a) = Suc (re_size a)"
| "re_size (RLook a) = Suc (re_size a)"
| "re_size _ = 0"

fun rep_lo :: "re \<Rightarrow> nat" where
  "rep_lo (RRep lo hi g a) = lo"
| "rep_lo _ = 0"

text \<open>
  Canonicalize of the specification (without the flag \<^verbatim>\<open>u\<close>): the upper-case form,
  unless that would turn a non-ASCII code unit into an ASCII one. \<open>variants c\<close> lists the
  code units that canonicalize like \<open>c\<close>.
\<close>

definition canonicalize :: "bool \<Rightarrow> jschar \<Rightarrow> jschar" where
  "canonicalize ic c =
     (if ic then (let u = toUpperUnit c in if 128 \<le> c \<and> u < 128 then c else u) else c)"

definition variants :: "bool \<Rightarrow> jschar \<Rightarrow> jschar list" where
  "variants ic c =
     (if ic then
        (let u = canonicalize True c
         in [c, u, toLowerUnit u] @ (if u = 0x39C then [0xB5] else [])
            @ (if u = 0x3A3 then [0x3C2] else []))
      else [c])"

type_synonym captures = "nat \<Rightarrow> jsstring option"
type_synonym mstate = "jschar option \<times> jsstring \<times> captures"

definition is_word :: "jschar option \<Rightarrow> bool" where
  "is_word p = (case p of None \<Rightarrow> False | Some c \<Rightarrow> in_ranges wordc c)"

fun head :: "jsstring \<Rightarrow> jschar option" where
  "head [] = None"
| "head (x # xs) = Some x"

fun dec :: "nat option \<Rightarrow> nat option" where
  "dec None = None"
| "dec (Some h) = Some (h - 1)"

function matches :: "bool \<Rightarrow> re \<Rightarrow> mstate \<Rightarrow> mstate list" where
  "matches ic (RChr a) (p, s, c) =
     (case s of [] \<Rightarrow> []
      | x # xs \<Rightarrow> if canonicalize ic x = canonicalize ic a then [(Some x, xs, c)] else [])"
| "matches ic (RCls neg rs) (p, s, c) =
     (case s of [] \<Rightarrow> []
      | x # xs \<Rightarrow>
          if list_ex (in_ranges rs) (variants ic x) \<noteq> neg then [(Some x, xs, c)] else [])"
| "matches ic RDot (p, s, c) =
     (case s of [] \<Rightarrow> []
      | x # xs \<Rightarrow> if x \<in> {10, 13, 0x2028, 0x2029} then [] else [(Some x, xs, c)])"
| "matches ic REps st = [st]"
| "matches ic (RSeq a b) st = concat (map (matches ic b) (matches ic a st))"
| "matches ic (RAlt a b) st = matches ic a st @ matches ic b st"
| "matches ic (RGrp k a) (p, s, c) =
     map (\<lambda>(p', s', c'). (p', s', c'(k := Some (take (length s - length s') s))))
       (matches ic a (p, s, c))"
| "matches ic RBnd (p, s, c) = (if is_word p \<noteq> is_word (head s) then [(p, s, c)] else [])"
| "matches ic REnd (p, s, c) = (if s = [] then [(p, s, c)] else [])"
| "matches ic (RLook a) (p, s, c) =
     (case matches ic a (p, s, c) of [] \<Rightarrow> [] | (p', s', c') # _ \<Rightarrow> [(p, s, c')])"
| "matches ic (RRep lo hi g a) (p, s, c) =
     (if 0 < lo then
        concat (map (matches ic (RRep (lo - 1) (dec hi) g a)) (matches ic a (p, s, c)))
      else if hi = Some 0 then [(p, s, c)]
      else
        let more = concat (map (matches ic (RRep 0 (dec hi) g a))
                     (filter (\<lambda>st'. length (fst (snd st')) < length s)
                        (matches ic a (p, s, c))))
        in if g then more @ [(p, s, c)] else (p, s, c) # more)"
  by pat_completeness auto
termination
  by (relation "measures [\<lambda>(ic, r, st). re_size r, \<lambda>(ic, r, st). rep_lo r,
                          \<lambda>(ic, r, (p, s, c)). length s]") auto

text \<open>
  The result of a match: the index of its start, the matched text \<^verbatim>\<open>m[0]\<close> and the
  groups. \<open>search\<close> tries every start from the left; \<open>p\<close> is the code unit before the
  current start (for \<^verbatim>\<open>\b\<close>).
\<close>

type_synonym mres = "nat \<times> jsstring \<times> captures"

fun search :: "bool \<Rightarrow> re \<Rightarrow> jschar option \<Rightarrow> jsstring \<Rightarrow> nat \<Rightarrow> mres option" where
  "search ic r p [] i =
     (case matches ic r (p, [], \<lambda>_. None) of [] \<Rightarrow> None
      | (p', s', c') # _ \<Rightarrow> Some (i, [], c'))"
| "search ic r p (x # xs) i =
     (case matches ic r (p, x # xs, \<lambda>_. None) of
        [] \<Rightarrow> search ic r (Some x) xs (Suc i)
      | (p', s', c') # _ \<Rightarrow> Some (i, take (length (x # xs) - length s') (x # xs), c'))"

text \<open>The state in which the backtracking matcher stops first, if it stops at all.\<close>

definition first_match :: "bool \<Rightarrow> re \<Rightarrow> mstate \<Rightarrow> mstate option" where
  "first_match ic r st = (case matches ic r st of [] \<Rightarrow> None | st' # _ \<Rightarrow> Some st')"

lemma search_bounds:
  "search ic r p s i = Some (j, m, c) \<Longrightarrow> i \<le> j \<and> (j - i) + length m \<le> length s"
proof (induction s arbitrary: p i)
  case Nil
  then show ?case by (auto split: list.splits)
next
  case (Cons x xs)
  show ?case
  proof (cases "matches ic r (p, x # xs, \<lambda>_. None)")
    case Nil
    with Cons.prems have "search ic r (Some x) xs (Suc i) = Some (j, m, c)" by simp
    from Cons.IH [OF this] show ?thesis by auto
  next
    case (Cons st sts)
    with Cons.prems show ?thesis by (auto split: prod.splits)
  qed
qed

lemma drop_Cons_shorter: "drop a s = x # xs \<Longrightarrow> length xs < length s"
proof -
  assume "drop a s = x # xs"
  then have "length (drop a s) = Suc (length xs)" by simp
  then show ?thesis by simp
qed

lemma drop_match_shorter: "m \<noteq> [] \<Longrightarrow> Suc n - (a + length m) \<le> n"
  by (cases m) auto

text \<open>A regular expression literal: the flag \<^verbatim>\<open>i\<close> and the pattern.\<close>

type_synonym regex = "bool \<times> re"

definition js_match :: "regex \<Rightarrow> jsstring \<Rightarrow> mres option" where
  "js_match rx s = search (fst rx) (snd rx) None s 0"

definition js_test :: "regex \<Rightarrow> jsstring \<Rightarrow> bool" where
  "js_test rx s = (js_match rx s \<noteq> None)"

text \<open>\<^verbatim>\<open>m[k]\<close> or the empty string: \<^verbatim>\<open>(m[k] || '')\<close>, and \<^verbatim>\<open>$k\<close> in a replacement.\<close>

definition grp :: "captures \<Rightarrow> nat \<Rightarrow> jsstring" where
  "grp c k = (case c k of None \<Rightarrow> [] | Some t \<Rightarrow> t)"

text \<open>
  \<^verbatim>\<open>s.replace(/r/g, ...)\<close>: every match from the left, the next search starting where the
  last match ended (one code unit further after an empty match).
\<close>

function replace_all :: "bool \<Rightarrow> re \<Rightarrow> (captures \<Rightarrow> jsstring) \<Rightarrow> jschar option \<Rightarrow> jsstring \<Rightarrow> jsstring" where
  "replace_all ic r f p [] =
     (case search ic r p [] 0 of None \<Rightarrow> [] | Some (i, m, c) \<Rightarrow> f c)"
| "replace_all ic r f p (y # ys) =
     (case search ic r p (y # ys) 0 of
        None \<Rightarrow> y # ys
      | Some (i, m, c) \<Rightarrow>
          take i (y # ys) @ f c @
            (if m = [] then
               (case drop i (y # ys) of [] \<Rightarrow> []
                | x # xs \<Rightarrow> x # replace_all ic r f (Some x) xs)
             else replace_all ic r f (Some (last m)) (drop (i + length m) (y # ys))))"
  by pat_completeness auto
termination
  apply (relation "measure (\<lambda>(ic, r, f, p, s). length s)")
    apply simp
   apply (auto simp del: search.simps dest!: search_bounds drop_Cons_shorter
      simp: less_Suc_eq_le drop_match_shorter)
  done

definition js_replace :: "regex \<Rightarrow> (captures \<Rightarrow> jsstring) \<Rightarrow> jsstring \<Rightarrow> jsstring" where
  "js_replace rx f s = replace_all (fst rx) (snd rx) f None s"

text \<open>\<^verbatim>\<open>[...s.matchAll(/r/g)]\<close>: the groups of every match from the left.\<close>

function match_all :: "bool \<Rightarrow> re \<Rightarrow> jschar option \<Rightarrow> jsstring \<Rightarrow> captures list" where
  "match_all ic r p [] =
     (case search ic r p [] 0 of None \<Rightarrow> [] | Some (i, m, c) \<Rightarrow> [c])"
| "match_all ic r p (y # ys) =
     (case search ic r p (y # ys) 0 of
        None \<Rightarrow> []
      | Some (i, m, c) \<Rightarrow>
          c # (if m = [] then
                 (case drop i (y # ys) of [] \<Rightarrow> []
                  | x # xs \<Rightarrow> match_all ic r (Some x) xs)
               else match_all ic r (Some (last m)) (drop (i + length m) (y # ys))))"
  by pat_completeness auto
termination
  apply (relation "measure (\<lambda>(ic, r, p, s). length s)")
    apply simp
   apply (auto simp del: search.simps dest!: search_bounds drop_Cons_shorter
      simp: less_Suc_eq_le drop_match_shorter)
  done

definition js_matchAll :: "regex \<Rightarrow> jsstring \<Rightarrow> captures list" where
  "js_matchAll rx s = match_all (fst rx) (snd rx) None s"

text \<open>
  \<^verbatim>\<open>s.split(/r/)\<close> for a pattern without groups: the pieces between the matches. An empty
  match directly after the last separator is skipped.
\<close>

function split_go :: "bool \<Rightarrow> re \<Rightarrow> jschar option \<Rightarrow> jsstring \<Rightarrow> jsstring \<Rightarrow> jsstring list" where
  "split_go ic r p [] acc = [rev acc]"
| "split_go ic r p (x # xs) acc =
     (case matches ic r (p, x # xs, \<lambda>_. None) of
        [] \<Rightarrow> split_go ic r (Some x) xs (x # acc)
      | (p', s', c') # _ \<Rightarrow>
          if length s' < Suc (length xs) then rev acc # split_go ic r p' s' []
          else if acc = [] then split_go ic r (Some x) xs [x]
          else rev acc # split_go ic r (Some x) xs [x])"
  by pat_completeness auto
termination
  by (relation "measure (\<lambda>(ic, r, p, s, acc). length s)") auto

definition js_split :: "regex \<Rightarrow> jsstring \<Rightarrow> jsstring list" where
  "js_split rx s =
     (if s = [] then
        (if matches (fst rx) (snd rx) (None, [], \<lambda>_. None) = [] then [[]] else [])
      else split_go (fst rx) (snd rx) None s [])"

subsection \<open>Writing patterns\<close>

fun lit :: "string \<Rightarrow> re" where
  "lit [] = REps"
| "lit [x] = RChr (of_char x)"
| "lit (x # xs) = RSeq (RChr (of_char x)) (lit xs)"

fun seq :: "re list \<Rightarrow> re" where
  "seq [] = REps"
| "seq [r] = r"
| "seq (r # rs) = RSeq r (seq rs)"

fun alt :: "re list \<Rightarrow> re" where
  "alt [] = RCls False []"
| "alt [r] = r"
| "alt (r # rs) = RAlt r (alt rs)"

abbreviation rstar :: "re \<Rightarrow> re" where "rstar r \<equiv> RRep 0 None True r"
abbreviation rplus :: "re \<Rightarrow> re" where "rplus r \<equiv> RRep 1 None True r"
abbreviation ropt :: "re \<Rightarrow> re" where "ropt r \<equiv> RRep 0 (Some 1) True r"
abbreviation rrep :: "nat \<Rightarrow> nat \<Rightarrow> re \<Rightarrow> re" where "rrep lo hi r \<equiv> RRep lo (Some hi) True r"
abbreviation rstar_lazy :: "re \<Rightarrow> re" where "rstar_lazy r \<equiv> RRep 0 None False r"
abbreviation rplus_lazy :: "re \<Rightarrow> re" where "rplus_lazy r \<equiv> RRep 1 None False r"

abbreviation wsp :: re where "wsp \<equiv> RCls False ws"
abbreviation dig :: re where "dig \<equiv> RCls False digit"

section \<open>The scraper: tables and utilities\<close>

definition KNOWN_TERPENES :: "jsstring list" where
  "KNOWN_TERPENES = map str
     [''myrcene'', ''limonene'', ''linalool'', ''terpinolene'', ''caryophyllene'', ''humulene'',
      ''alpha-pinene'', ''beta-pinene'', ''pinene'', ''ocimene'', ''farnesene'', ''nerolidol'',
      ''bisabolol'', ''eucalyptol'', ''camphene'', ''borneol'', ''caryophyllene-oxide'', ''cedrol'',
      ''guaiol'', ''sabinene'', ''terpineol'', ''geraniol'', ''isopulegol'', ''pulegone'',
      ''phytol'', ''fenchyl alcohol'']"

definition SYN :: "(jsstring \<times> jsstring) list" where
  "SYN =
     [(beta # str ''-caryophyllene'', str ''caryophyllene''),
      (str ''b-caryophyllene'', str ''caryophyllene''),
      (str ''beta-caryophyllene'', str ''caryophyllene''),
      (str ''caryophyllene oxide'', str ''caryophyllene-oxide''),
      (alpha # str ''-humulene'', str ''humulene''),
      (str ''a-humulene'', str ''humulene''),
      (str ''d-limonene'', str ''limonene''),
      (str ''1,8-cineole'', str ''eucalyptol''),
      (alpha # str ''-pinene'', str ''alpha-pinene''),
      (str ''a-pinene'', str ''alpha-pinene''),
      (beta # str ''-pinene'', str ''beta-pinene''),
      (str ''b-pinene'', str ''beta-pinene''),
      (str ''trans-caryophyllene'', str ''caryophyllene''),
      (str ''fenchol'', str ''fenchyl alcohol''),
      (beta # str ''-myrcene'', str ''myrcene''),
      (str ''b-myrcene'', str ''myrcene'')]"

text \<open>
  \<^verbatim>\<open>parseFloat\<close> on a string of the form \<^verbatim>\<open>-?\d+(\.\d+)?\<close>, the only strings
  \<^verbatim>\<open>toFloatSafe\<close> passes to it: the double nearest to the decimal value.
\<close>

definition digits_val :: "jsstring \<Rightarrow> nat" where
  "digits_val ds = foldl (\<lambda>a d. 10 * a + (d - 48)) 0 ds"

definition unsigned_val :: "jsstring \<Rightarrow> rat" where
  "unsigned_val s =
     (let ip = takeWhile (\<lambda>c. c \<noteq> 46) s; fp = drop (Suc (length ip)) s
      in of_nat (digits_val ip) + of_nat (digits_val fp) / 10 ^ length fp)"

definition parseFloat :: "jsstring \<Rightarrow> rat" where
  "parseFloat s =
     fl (case s of [] \<Rightarrow> 0 | x # xs \<Rightarrow> if x = 45 then - unsigned_val xs else unsigned_val s)"

text \<open>\<^verbatim>\<open>/-?\d+(?:\.\d+)?/\<close>\<close>

definition re_number :: regex where
  "re_number = (False, seq [ropt (lit ''-''), rplus dig, ropt (seq [lit ''.'', rplus dig])])"

text \<open>
  \<^verbatim>\<open>
  function toFloatSafe(x) {
    if (x == null) return null;
    const m = String(x).replace(/,/g,'').match(/-?\d+(?:\.\d+)?/);
    return m ? parseFloat(m[0]) : null;
  }
  \<close>
\<close>

definition toFloatSafe :: "jsstring option \<Rightarrow> rat option" where
  "toFloatSafe x =
     (case x of None \<Rightarrow> None
      | Some s \<Rightarrow>
          (case js_match re_number (filter (\<lambda>c. c \<noteq> 44) s) of
             Some (i, m, c) \<Rightarrow> Some (parseFloat m)
           | None \<Rightarrow> None))"

text \<open>
  \<^verbatim>\<open>
  function unitFrom(s) {
    if (!s) return null;
    const t = s.toLowerCase();
    if (/%/.test(t)) return '%';
    if (/mg\s*\/\s*g/.test(t)) return 'mg/g';
    if (/\u00B5g\s*\/\s*g|ug\s*\/\s*g/.test(t)) return 'ug/g';
    return null;
  }
  \<close>
\<close>

datatype unit = Percent | MgPerG | UgPerG

definition unitFrom :: "jsstring \<Rightarrow> unit option" where
  "unitFrom s =
     (if s = [] then None
      else let t = toLowerCase s in
        if js_test (False, lit ''%'') t then Some Percent
        else if js_test (False, seq [lit ''mg'', rstar wsp, lit ''/'', rstar wsp, lit ''g'']) t
          then Some MgPerG
        else if js_test (False, alt [seq [RChr micro, lit ''g'', rstar wsp, lit ''/'', rstar wsp, lit ''g''],
                                     seq [lit ''ug'', rstar wsp, lit ''/'', rstar wsp, lit ''g'']]) t
          then Some UgPerG
        else None)"

text \<open>
  \<^verbatim>\<open>
  const mgPerGToPercent = (x) => (x==null?null:(x/10));
  const ugPerGToPercent = (x) => (x==null?null:(x/10000));
  \<close>
\<close>

definition mgPerGToPercent :: "rat option \<Rightarrow> rat option" where
  "mgPerGToPercent x = (case x of None \<Rightarrow> None | Some v \<Rightarrow> Some (ddiv v 10))"

definition ugPerGToPercent :: "rat option \<Rightarrow> rat option" where
  "ugPerGToPercent x = (case x of None \<Rightarrow> None | Some v \<Rightarrow> Some (ddiv v 10000))"

text \<open>
  The value of \<^verbatim>\<open>canonTerp\<close>: a string, or what \<^verbatim>\<open>SYN[raw]\<close> finds on the prototype of
  the table (\<^verbatim>\<open>constructor\<close> and \<^verbatim>\<open>__proto__\<close> are the two lower-case names there).
\<close>

datatype tname = TStr jsstring | TInherited jsstring

definition SYN_get :: "jsstring \<Rightarrow> tname option" where
  "SYN_get raw =
     (case map_of SYN raw of
        Some v \<Rightarrow> Some (TStr v)
      | None \<Rightarrow>
          if raw = str ''constructor'' \<or> raw = str ''__proto__'' then Some (TInherited raw)
          else None)"

text \<open>
  \<^verbatim>\<open>
  function canonTerp(name) {
    if (!name) return null;
    const raw = name.toLowerCase().trim();
    if (SYN[raw]) return SYN[raw];
    if (/alpha[-\s]?pinene|a[-\s]?pinene/i.test(name)) return 'alpha-pinene';
    if (/beta[-\s]?pinene|b[-\s]?pinene/i.test(name)) return 'beta-pinene';
    if (/\bpinene\b/i.test(name)) return 'pinene';
    const greek = raw.replace(/\u03B1/g,'alpha-').replace(/\u03B2/g,'beta-');
    for (const t of KNOWN_TERPENES) if (greek.includes(t)) return t;
    return raw;
  }
  \<close>
\<close>

definition re_alpha_pinene :: regex where
  "re_alpha_pinene = (True, alt
     [seq [lit ''alpha'', ropt (RCls False (only CHR ''-'' # ws)), lit ''pinene''],
      seq [lit ''a'', ropt (RCls False (only CHR ''-'' # ws)), lit ''pinene'']])"

definition re_beta_pinene :: regex where
  "re_beta_pinene = (True, alt
     [seq [lit ''beta'', ropt (RCls False (only CHR ''-'' # ws)), lit ''pinene''],
      seq [lit ''b'', ropt (RCls False (only CHR ''-'' # ws)), lit ''pinene'']])"

definition re_pinene :: regex where
  "re_pinene = (True, seq [RBnd, lit ''pinene'', RBnd])"

definition greek_replace :: "jsstring \<Rightarrow> jsstring" where
  "greek_replace raw =
     concat (map (\<lambda>c. if c = beta then str ''beta-'' else [c])
       (concat (map (\<lambda>c. if c = alpha then str ''alpha-'' else [c]) raw)))"

definition canonTerp :: "jsstring \<Rightarrow> tname option" where
  "canonTerp nm =
     (if nm = [] then None
      else let raw = trim (toLowerCase nm) in
        case SYN_get raw of
          Some v \<Rightarrow> Some v
        | None \<Rightarrow>
            if js_test re_alpha_pinene nm then Some (TStr (str ''alpha-pinene''))
            else if js_test re_beta_pinene nm then Some (TStr (str ''beta-pinene''))
            else if js_test re_pinene nm then Some (TStr (str ''pinene''))
            else (case find (js_includes (greek_replace raw)) KNOWN_TERPENES of
                    Some t \<Rightarrow> Some (TStr t)
                  | None \<Rightarrow> Some (TStr raw)))"

text \<open>
  The pattern of hasPercentContext (one line in the source):
  \<^verbatim>\<open>
  /(Result\s*%\s*\(total\)|Amount\s*\(%\s*(?:w\/w|wt\/wt)?\)|%\s*(?:w\/w|wt\/wt)
   |% of total terpenes|percent of total)/i
  \<close>
\<close>

definition re_percent_context :: regex where
  "re_percent_context = (True, RGrp 1 (alt
     [seq [lit ''Result'', rstar wsp, lit ''%'', rstar wsp, lit ''(total)''],
      seq [lit ''Amount'', rstar wsp, lit ''(%'', rstar wsp,
           ropt (alt [lit ''w/w'', lit ''wt/wt'']), lit '')''],
      seq [lit ''%'', rstar wsp, alt [lit ''w/w'', lit ''wt/wt'']],
      lit ''% of total terpenes'',
      lit ''percent of total'']))"

definition hasPercentContext :: "jsstring \<Rightarrow> bool" where
  "hasPercentContext text = js_test re_percent_context text"

text \<open>
  In a class, \<^verbatim>\<open>\b\<close> is the backspace U+0008.
  \<^verbatim>\<open>
  function joinWeirdDecimals(s) {
    return s
      .replace(/(\d)\s*[.,]\s*(\d{2,4})/g, '$1.$2')
      .replace(/(\d)\s+(\d{2,4})(?=\s*[%\b])/g, '$1.$2');
  }
  \<close>
\<close>

definition re_join1 :: regex where
  "re_join1 = (False, seq [RGrp 1 dig, rstar wsp, RCls False [only CHR ''.'', only CHR '',''],
                           rstar wsp, RGrp 2 (rrep 2 4 dig)])"

definition re_join2 :: regex where
  "re_join2 = (False, seq [RGrp 1 dig, rplus wsp, RGrp 2 (rrep 2 4 dig),
                           RLook (seq [rstar wsp, RCls False [only CHR ''%'', (8, 8)]])])"

definition dollar_1_dot_2 :: "captures \<Rightarrow> jsstring" where
  "dollar_1_dot_2 c = grp c 1 @ str ''.'' @ grp c 2"

definition joinWeirdDecimals :: "jsstring \<Rightarrow> jsstring" where
  "joinWeirdDecimals s = js_replace re_join2 dollar_1_dot_2 (js_replace re_join1 dollar_1_dot_2 s)"

text \<open>\<^verbatim>\<open>/\s{2,}/g\<close>, replaced by one space.\<close>

definition re_ws2 :: regex where
  "re_ws2 = (False, RRep 2 None True wsp)"

definition space :: "captures \<Rightarrow> jsstring" where
  "space c = str '' ''"

section \<open>The scraper: parsers\<close>

subsection \<open>parseStrain\<close>

text \<open>
  The five patterns end alike, in \<open>label_sep\<close>. The second one is the text
  \<^verbatim>\<open>Cultivar(s\<close> and an optional closing parenthesis.
  \<^verbatim>\<open>
  const pats = [
    /\bStrain\s*[:\-]\s*(.+)/i,
    /\bCultivar\(s\)?\s*[:\-]\s*(.+)/i,
    /\bSample\s*Alias\s*[:\-]\s*(.+)/i,
    /\bProduct\s*Name\s*[:\-]\s*(.+)/i,
    /\bCultivars?\s*[:\-]\s*(.+)/i
  ];
  for (const re of pats) {
    const m = text.match(re);
    if (m) return m[1].replace(/\r|\n/g,' ').replace(/\s{2,}/g,' ').trim();
  }
  return null;
  \<close>
\<close>

definition label_sep :: "re list" where
  "label_sep = [rstar wsp, RCls False [only CHR '':'', only CHR ''-''], rstar wsp, RGrp 1 (rplus RDot)]"

definition strain_pats :: "regex list" where
  "strain_pats =
     [(True, seq ([RBnd, lit ''Strain''] @ label_sep)),
      (True, seq ([RBnd, lit ''Cultivar(s'', ropt (lit '')'')] @ label_sep)),
      (True, seq ([RBnd, lit ''Sample'', rstar wsp, lit ''Alias''] @ label_sep)),
      (True, seq ([RBnd, lit ''Product'', rstar wsp, lit ''Name''] @ label_sep)),
      (True, seq ([RBnd, lit ''Cultivar'', ropt (lit ''s'')] @ label_sep))]"

definition re_crlf :: regex where
  "re_crlf = (False, alt [RChr 13, RChr 10])"

fun parseStrain_loop :: "regex list \<Rightarrow> jsstring \<Rightarrow> jsstring option" where
  "parseStrain_loop [] text = None"
| "parseStrain_loop (rx # pats) text =
     (case js_match rx text of
        Some (i, m, c) \<Rightarrow> Some (trim (js_replace re_ws2 space (js_replace re_crlf space (grp c 1))))
      | None \<Rightarrow> parseStrain_loop pats text)"

definition parseStrain :: "jsstring \<Rightarrow> jsstring option" where
  "parseStrain text = parseStrain_loop strain_pats text"

subsection \<open>collectTerpenesAsPercent and pickTopTerpenes\<close>

record row =
  name :: tname
  percent :: rat

text \<open>\<^verbatim>\<open>text.split(/\r?\n/)\<close>\<close>

definition re_lines :: regex where
  "re_lines = (False, seq [ropt (RChr 13), RChr 10])"

text \<open>
  The pattern nameRegex (one line in the source):
  \<^verbatim>\<open>
  /([A-Za-z\u00B5\u03B2\u03B1\-\.\/\(\)\s]*?(?:caryophyllene|pinene|myrcene|limonene|linalool
     |humulene|terpinolene|ocimene|farnesene|nerolidol|bisabolol|eucalyptol
     |fenchyl(?:\s+alcohol)?))/i
  \<close>
\<close>

definition nameRegex :: regex where
  "nameRegex = (True, RGrp 1 (seq
     [rstar_lazy (RCls False ([rng CHR ''A'' CHR ''Z'', rng CHR ''a'' CHR ''z'', (micro, micro),
                    (beta, beta), (alpha, alpha), only CHR ''-'', only CHR ''.'', only CHR ''/'',
                    only CHR ''('', only CHR '')''] @ ws)),
      alt [lit ''caryophyllene'', lit ''pinene'', lit ''myrcene'', lit ''limonene'',
           lit ''linalool'', lit ''humulene'', lit ''terpinolene'', lit ''ocimene'',
           lit ''farnesene'', lit ''nerolidol'', lit ''bisabolol'', lit ''eucalyptol'',
           seq [lit ''fenchyl'', ropt (seq [rplus wsp, lit ''alcohol''])]]]))"

text \<open>
  \<^verbatim>\<open>
  /(-?\d{1,3})(?:\s*[.,]\s*(\d{1,4}))?\s*(%|mg\s*\/\s*g|\u00B5g\s*\/\s*g|ug\s*\/\s*g)?/gi
  \<close>
\<close>

definition re_nums :: regex where
  "re_nums = (True, seq
     [RGrp 1 (seq [ropt (lit ''-''), rrep 1 3 dig]),
      ropt (seq [rstar wsp, RCls False [only CHR ''.'', only CHR '',''], rstar wsp,
                 RGrp 2 (rrep 1 4 dig)]),
      rstar wsp,
      ropt (RGrp 3 (alt
        [lit ''%'',
         seq [lit ''mg'', rstar wsp, lit ''/'', rstar wsp, lit ''g''],
         seq [RChr micro, lit ''g'', rstar wsp, lit ''/'', rstar wsp, lit ''g''],
         seq [lit ''ug'', rstar wsp, lit ''/'', rstar wsp, lit ''g'']]))])"

text \<open>
  \<^verbatim>\<open>
  let pick = nums.find(n => (n[3] || '').includes('%'));
  if (!pick) pick = nums.find(n => (n[3] || '').toLowerCase().includes('mg'));
  if (!pick) pick = nums.find(n => (n[3] || '').toLowerCase().includes('g'));
  if (!pick && percentByHeader) pick = nums[nums.length - 1];
  if (!pick) continue;
  \<close>
\<close>

definition pickNum :: "bool \<Rightarrow> captures list \<Rightarrow> captures option" where
  "pickNum percentByHeader nums =
     (case find (\<lambda>n. js_includes (grp n 3) (str ''%'')) nums of
        Some pick \<Rightarrow> Some pick
      | None \<Rightarrow>
     (case find (\<lambda>n. js_includes (toLowerCase (grp n 3)) (str ''mg'')) nums of
        Some pick \<Rightarrow> Some pick
      | None \<Rightarrow>
     (case find (\<lambda>n. js_includes (toLowerCase (grp n 3)) (str ''g'')) nums of
        Some pick \<Rightarrow> Some pick
      | None \<Rightarrow> if percentByHeader then Some (last nums) else None)))"

text \<open>
  One turn of the loop over the lines of \<^verbatim>\<open>collectTerpenesAsPercent\<close>: the row pushed,
  or \<open>None\<close> for \<^verbatim>\<open>continue\<close>. The value is finite, so \<^verbatim>\<open>fixPercentOverflow\<close>
  is \<open>fixFinite\<close> here (lemma \<open>fixLoop_Fin\<close> below), and the test against \<^verbatim>\<open>NaN\<close>
  before the push always passes.
  \<^verbatim>\<open>
  for (let rawLine of lines) {
    let line = joinWeirdDecimals(rawLine.replace(/\s{2,}/g, ' ').trim());
    if (!nameRegex.test(line)) continue;
    const nm = line.match(nameRegex);
    if (!nm) continue;
    const name = canonTerp(nm[1]);
    if (!name) continue;
    const nums = [...line.matchAll(/.../gi)];
    if (!nums.length) continue;
    ... pick ...
    const whole = pick[1];
    const frac  = pick[2] || '';
    let val = toFloatSafe(frac ? `${whole}.${frac}` : whole);
    let unit = unitFrom(pick[3] || '');
    if (!unit && percentByHeader) unit = '%';
    if (val == null || !unit) continue;
    if (unit === '%') val = fixPercentOverflow(val);
    else if (unit === 'mg/g') val = mgPerGToPercent(val);
    else if (unit === 'ug/g') val = ugPerGToPercent(val);
    else continue;
    if (val != null && !Number.isNaN(val)) rows.push({ name, percent: val });
  }
  \<close>
\<close>

definition terpRow :: "bool \<Rightarrow> jsstring \<Rightarrow> row option" where
  "terpRow percentByHeader rawLine =
     (let line = joinWeirdDecimals (trim (js_replace re_ws2 space rawLine)) in
      case js_match nameRegex line of
        None \<Rightarrow> None
      | Some (i, m, c) \<Rightarrow>
     (case canonTerp (grp c 1) of
        None \<Rightarrow> None
      | Some nm \<Rightarrow>
          if nm = TStr [] then None
          else let nums = js_matchAll re_nums line in
            if nums = [] then None
            else
     (case pickNum percentByHeader nums of
        None \<Rightarrow> None
      | Some pick \<Rightarrow>
          let whole = grp pick 1;
              frac = grp pick 2;
              val = toFloatSafe (Some (if frac \<noteq> [] then whole @ str ''.'' @ frac else whole));
              unit0 = unitFrom (grp pick 3);
              unit = (if unit0 = None \<and> percentByHeader then Some Percent else unit0)
          in
          if val = None \<or> unit = None then None
          else
     (case (case unit of
              Some Percent \<Rightarrow> map_option fixFinite val
            | Some MgPerG \<Rightarrow> mgPerGToPercent val
            | Some UgPerG \<Rightarrow> ugPerGToPercent val
            | None \<Rightarrow> None) of
        None \<Rightarrow> None
      | Some v \<Rightarrow> Some \<lparr>name = nm, percent = v\<rparr>))))"

text \<open>The \<^verbatim>\<open>Map\<close> \<open>best\<close>, in insertion order: setting a key that is present keeps its place.\<close>

text \<open>
  \<^verbatim>\<open>
  const best = new Map();
  for (const r of rows) {
    const prev = best.get(r.name);
    if (!prev || r.percent > prev.percent) best.set(r.name, r);
  }
  return [...best.values()];
  \<close>
\<close>

fun map_set :: "tname \<Rightarrow> row \<Rightarrow> (tname \<times> row) list \<Rightarrow> (tname \<times> row) list" where
  "map_set k v [] = [(k, v)]"
| "map_set k v ((k', v') # kvs) = (if k' = k then (k, v) # kvs else (k', v') # map_set k v kvs)"

fun best_loop :: "row list \<Rightarrow> (tname \<times> row) list \<Rightarrow> (tname \<times> row) list" where
  "best_loop [] best = best"
| "best_loop (r # rows) best =
     (case map_of best (name r) of
        None \<Rightarrow> best_loop rows (map_set (name r) r best)
      | Some prev \<Rightarrow>
          if percent r > percent prev then best_loop rows (map_set (name r) r best)
          else best_loop rows best)"

definition collectTerpenesAsPercent :: "jsstring \<Rightarrow> row list" where
  "collectTerpenesAsPercent text =
     (let percentByHeader = hasPercentContext text;
          lines = js_split re_lines text;
          rows = List.map_filter (terpRow percentByHeader) lines
      in map snd (best_loop rows []))"

text \<open>\<^verbatim>\<open>rows.sort((a,b) => b.percent - a.percent)\<close>: a stable sort, highest percent first.\<close>

definition sort_desc :: "row list \<Rightarrow> row list" where
  "sort_desc rows = sort_key (\<lambda>r. - percent r) rows"

definition halve_pinene :: "row \<Rightarrow> row" where
  "halve_pinene r = (if name r = TStr (str ''pinene'') then r\<lparr>percent := dmul (percent r) (1 / 2)\<rparr> else r)"

text \<open>
  \<^verbatim>\<open>
  function pickTopTerpenes(text, limit = 3) {
    const rows = collectTerpenesAsPercent(text);
    if (!rows.length) return [];
    rows.sort((a,b)=>b.percent - a.percent);
    const hasAlpha = rows.some(r => r.name === 'alpha-pinene');
    const hasBeta  = rows.some(r => r.name === 'beta-pinene');
    if (hasAlpha || hasBeta) {
      for (const r of rows) {
        if (r.name === 'pinene') r.percent = r.percent * 0.5;
      }
      rows.sort((a,b)=>b.percent - a.percent);
    }
    return rows.slice(0, limit).map(r => r.name);
  }
  \<close>
\<close>

definition pickTopTerpenes :: "jsstring \<Rightarrow> nat \<Rightarrow> tname list" where
  "pickTopTerpenes text limit =
     (let rows = collectTerpenesAsPercent text in
      if rows = [] then []
      else
        let rows1 = sort_desc rows;
            hasAlpha = list_ex (\<lambda>r. name r = TStr (str ''alpha-pinene'')) rows1;
            hasBeta = list_ex (\<lambda>r. name r = TStr (str ''beta-pinene'')) rows1;
            rows2 = (if hasAlpha \<or> hasBeta then sort_desc (map halve_pinene rows1) else rows1)
        in map name (take limit rows2))"

subsection \<open>parseTHC\<close>

text \<open>
  \<^verbatim>\<open>
  function normalizeForTHC(text) {
    return joinWeirdDecimals(text.replace(/[\r\n]+/g, ' ').replace(/\s{2,}/g, ' '));
  }
  function firstNumber(re, s) {
    const m = s.match(re);
    return m ? toFloatSafe(m[1]) : null;
  }
  \<close>
\<close>

definition re_newlines :: regex where
  "re_newlines = (False, rplus (RCls False [(13, 13), (10, 10)]))"

definition normalizeForTHC :: "jsstring \<Rightarrow> jsstring" where
  "normalizeForTHC text =
     joinWeirdDecimals (js_replace re_ws2 space (js_replace re_newlines space text))"

definition firstNumber :: "regex \<Rightarrow> jsstring \<Rightarrow> rat option" where
  "firstNumber rx s =
     (case js_match rx s of Some (i, m, c) \<Rightarrow> toFloatSafe (c 1) | None \<Rightarrow> None)"

text \<open>
  \<^verbatim>\<open>
  function parseTHC(text) {
    const flat = normalizeForTHC(text);
    let pct = firstNumber(/\bTotal\s+(?:Active\s+)?THC\b[^0-9]{0,40}(\d{1,2}(?:[.,]\d{1,2})?)\s*%/i, flat);
    if (pct != null) return { totalPercent: pct };
    let mg = firstNumber(/\bTotal\s+(?:Active\s+)?THC\b[^0-9]{0,40}(\d{1,3}(?:[.,]\d{1,2})?)\s*mg\s*\/\s*g/i, flat);
    if (mg != null) return { totalPercent: mgPerGToPercent(mg) };
    let thcaPct = firstNumber(/\bTHC[\s\-]?A\b[^0-9]{0,40}(\d{1,2}(?:[.,]\d{1,2})?)\s*%/i, flat)
               ?? firstNumber(/\bTHCa\b[^0-9]{0,40}(\d{1,2}(?:[.,]\d{1,2})?)\s*%/i, flat);
    let d9Pct   = firstNumber(/\b(?:Delta|\u0394)\s*[-]?\s*9\s*[-]?\s*THC\b[^0-9]{0,40}(\d{1,2}(?:[.,]\d{1,2})?)\s*%/i, flat)
               ?? firstNumber(/\bD(?:elta)?-?9\b[^0-9]{0,40}(\d{1,2}(?:[.,]\d{1,2})?)\s*%/i, flat);
    let thcaMg  = firstNumber(/\bTHC[\s\-]?A\b[^0-9]{0,40}(\d{1,3}(?:[.,]\d{1,2})?)\s*mg\s*\/\s*g/i, flat)
               ?? firstNumber(/\bTHCa\b[^0-9]{0,40}(\d{1,3}(?:[.,]\d{1,2})?)\s*mg\s*\/\s*g/i, flat);
    let d9Mg    = firstNumber(/\b(?:Delta|\u0394)\s*[-]?\s*9\s*[-]?\s*THC\b[^0-9]{0,40}(\d{1,3}(?:[.,]\d{1,2})?)\s*mg\s*\/\s*g/i, flat)
               ?? firstNumber(/\bD(?:elta)?-?9\b[^0-9]{0,40}(\d{1,3}(?:[.,]\d{1,2})?)\s*mg\s*\/\s*g/i, flat);
    let thca = thcaPct ?? (thcaMg!=null ? mgPerGToPercent(thcaMg) : null);
    let d9   = d9Pct   ?? (d9Mg  !=null ? mgPerGToPercent(d9Mg)   : null);
    if (thca!=null || d9!=null) {
      return { totalPercent: +(0.877*(thca ?? 0) + (d9 ?? 0)).toFixed(2) };
    }
    return { totalPercent: null };
  }
  \<close>
  Each of the ten patterns is a label, up to 40 non-digits, a number of at most \<open>n\<close>
  integer digits in group 1, and a unit; \<open>thc_re\<close> puts the three parts together.
\<close>

text \<open>
  After the label, the value and the unit:
  \<^verbatim>\<open>
  [^0-9]{0,40}(\d{1,2}(?:[.,]\d{1,2})?)\s*%
  [^0-9]{0,40}(\d{1,3}(?:[.,]\d{1,2})?)\s*mg\s*\/\s*g
  \<close>
\<close>

definition thc_value :: "nat \<Rightarrow> re" where
  "thc_value n = seq
     [rrep 0 40 (RCls True digit),
      RGrp 1 (seq [rrep 1 n dig,
                   ropt (seq [RCls False [only CHR ''.'', only CHR '',''], rrep 1 2 dig])])]"

definition pct_unit :: re where
  "pct_unit = seq [rstar wsp, lit ''%'']"

definition mg_unit :: re where
  "mg_unit = seq [rstar wsp, lit ''mg'', rstar wsp, lit ''/'', rstar wsp, lit ''g'']"

text \<open>
  The five labels:
  \<^verbatim>\<open>
  \bTotal\s+(?:Active\s+)?THC\b
  \bTHC[\s\-]?A\b
  \bTHCa\b
  \b(?:Delta|\u0394)\s*[-]?\s*9\s*[-]?\s*THC\b
  \bD(?:elta)?-?9\b
  \<close>
\<close>

definition lbl_total :: re where
  "lbl_total = seq [RBnd, lit ''Total'', rplus wsp, ropt (seq [lit ''Active'', rplus wsp]),
                    lit ''THC'', RBnd]"

definition lbl_thc_a :: re where
  "lbl_thc_a = seq [RBnd, lit ''THC'', ropt (RCls False (ws @ [only CHR ''-''])), lit ''A'', RBnd]"

definition lbl_thca :: re where
  "lbl_thca = seq [RBnd, lit ''THCa'', RBnd]"

definition lbl_delta9_thc :: re where
  "lbl_delta9_thc = seq [RBnd, alt [lit ''Delta'', RChr Delta], rstar wsp, ropt (lit ''-''),
                         rstar wsp, lit ''9'', rstar wsp, ropt (lit ''-''), rstar wsp,
                         lit ''THC'', RBnd]"

definition lbl_d9 :: re where
  "lbl_d9 = seq [RBnd, lit ''D'', ropt (lit ''elta''), ropt (lit ''-''), lit ''9'', RBnd]"

definition thc_re :: "re \<Rightarrow> nat \<Rightarrow> re \<Rightarrow> regex" where
  "thc_re lbl n u = (True, seq [lbl, thc_value n, u])"

definition re_total_pct :: regex where "re_total_pct = thc_re lbl_total 2 pct_unit"
definition re_total_mg :: regex where "re_total_mg = thc_re lbl_total 3 mg_unit"
definition re_thc_a_pct :: regex where "re_thc_a_pct = thc_re lbl_thc_a 2 pct_unit"
definition re_thca_pct :: regex where "re_thca_pct = thc_re lbl_thca 2 pct_unit"
definition re_delta9_pct :: regex where "re_delta9_pct = thc_re lbl_delta9_thc 2 pct_unit"
definition re_d9_pct :: regex where "re_d9_pct = thc_re lbl_d9 2 pct_unit"
definition re_thc_a_mg :: regex where "re_thc_a_mg = thc_re lbl_thc_a 3 mg_unit"
definition re_thca_mg :: regex where "re_thca_mg = thc_re lbl_thca 3 mg_unit"
definition re_delta9_mg :: regex where "re_delta9_mg = thc_re lbl_delta9_thc 3 mg_unit"
definition re_d9_mg :: regex where "re_d9_mg = thc_re lbl_d9 3 mg_unit"

text \<open>\<^verbatim>\<open>a ?? b\<close>\<close>

definition nullish :: "'a option \<Rightarrow> 'a option \<Rightarrow> 'a option" where
  "nullish a b = (case a of Some v \<Rightarrow> Some v | None \<Rightarrow> b)"

text \<open>
  \<^verbatim>\<open>x.toFixed(2)\<close> writes \<open>n / 100\<close> for the integer \<open>n\<close> with \<open>n / 100\<close> nearest to the
  magnitude of the double \<open>x\<close>, the larger \<open>n\<close> of two that are equally near, with the sign
  of \<open>x\<close>; \<open>hundredths x\<close> is that integer, with the sign. The unary plus of
  \<^verbatim>\<open>+x.toFixed(2)\<close> reads the decimal string back: the double nearest to \<open>n / 100\<close>.
\<close>

definition hundredths :: "rat \<Rightarrow> int" where
  "hundredths x = (if x < 0 then - \<lfloor>- x * 100 + 1 / 2\<rfloor> else \<lfloor>x * 100 + 1 / 2\<rfloor>)"

definition toFixed2 :: "rat \<Rightarrow> rat" where
  "toFixed2 x = fl (of_int (hundredths x) / 100)"

record thc =
  totalPercent :: "rat option"

text \<open>The local variables \<^verbatim>\<open>thca\<close> and \<^verbatim>\<open>d9\<close> of \<^verbatim>\<open>parseTHC\<close>.\<close>

definition locate_thca :: "jsstring \<Rightarrow> rat option" where
  "locate_thca flat =
     (let thcaPct = nullish (firstNumber re_thc_a_pct flat)
                            (firstNumber re_thca_pct flat);
          thcaMg = nullish (firstNumber re_thc_a_mg flat)
                           (firstNumber re_thca_mg flat)
      in nullish thcaPct (if thcaMg \<noteq> None then mgPerGToPercent thcaMg else None))"

definition locate_d9 :: "jsstring \<Rightarrow> rat option" where
  "locate_d9 flat =
     (let d9Pct = nullish (firstNumber re_delta9_pct flat)
                          (firstNumber re_d9_pct flat);
          d9Mg = nullish (firstNumber re_delta9_mg flat)
                         (firstNumber re_d9_mg flat)
      in nullish d9Pct (if d9Mg \<noteq> None then mgPerGToPercent d9Mg else None))"

definition or0 :: "rat option \<Rightarrow> rat" where
  "or0 x = (case x of None \<Rightarrow> 0 | Some v \<Rightarrow> v)"

definition parseTHC :: "jsstring \<Rightarrow> thc" where
  "parseTHC text =
     (let flat = normalizeForTHC text in
      case firstNumber re_total_pct flat of
        Some pct \<Rightarrow> \<lparr>totalPercent = Some pct\<rparr>
      | None \<Rightarrow>
     (case firstNumber re_total_mg flat of
        Some mg \<Rightarrow> \<lparr>totalPercent = mgPerGToPercent (Some mg)\<rparr>
      | None \<Rightarrow>
          let thca = locate_thca flat; d9 = locate_d9 flat in
          if thca \<noteq> None \<or> d9 \<noteq> None
          then \<lparr>totalPercent = Some (toFixed2 (dadd (dmul (fl (877 / 1000)) (or0 thca)) (or0 d9)))\<rparr>
          else \<lparr>totalPercent = None\<rparr>))"

subsection \<open>extractType\<close>

text \<open>
  \<^verbatim>\<open>
  function pickSih(text) {
    const m = text.match(/\b(Sativa|Indica|Hybrid)\b/i);
    return m ? m[1] : null;
  }
  function pickTypeRow(text) {
    const m = text.match(/\bType\s*[:\-]\s*([^\n]+?)(?=\s{2,}|\n|$)/i);
    return m ? m[1].trim() : null;
  }
  function extractType(text) {
    const sih = pickSih(text);
    if (sih) return sih;
    const row = pickTypeRow(text);
    if (!row) return null;
    const sihTail = row.match(/\b(Sativa|Indica|Hybrid)\b/i)?.[1];
    return sihTail || row;
  }
  \<close>
\<close>

definition re_sih :: regex where
  "re_sih = (True, seq [RBnd, RGrp 1 (alt [lit ''Sativa'', lit ''Indica'', lit ''Hybrid'']), RBnd])"

definition pickSih :: "jsstring \<Rightarrow> jsstring option" where
  "pickSih text = (case js_match re_sih text of Some (i, m, c) \<Rightarrow> c 1 | None \<Rightarrow> None)"

definition re_type_row :: regex where
  "re_type_row = (True, seq
     [RBnd, lit ''Type'', rstar wsp, RCls False [only CHR '':'', only CHR ''-''], rstar wsp,
      RGrp 1 (rplus_lazy (RCls True [(10, 10)])),
      RLook (alt [RRep 2 None True wsp, RChr 10, REnd])])"

definition pickTypeRow :: "jsstring \<Rightarrow> jsstring option" where
  "pickTypeRow text =
     (case js_match re_type_row text of Some (i, m, c) \<Rightarrow> Some (trim (grp c 1)) | None \<Rightarrow> None)"

text \<open>A string is falsy when it is \<^verbatim>\<open>null\<close> or empty.\<close>

definition truthy :: "jsstring option \<Rightarrow> bool" where
  "truthy x = (case x of None \<Rightarrow> False | Some s \<Rightarrow> s \<noteq> [])"

definition extractType :: "jsstring \<Rightarrow> jsstring option" where
  "extractType text =
     (let sih = pickSih text in
      if truthy sih then sih
      else
     (case pickTypeRow text of
        None \<Rightarrow> None
      | Some row \<Rightarrow>
          if row = [] then None
          else let sihTail = pickSih row in
            if truthy sihTail then sihTail else Some row))"

subsection \<open>parseCoa\<close>

record extraction =
  sourceUrl :: jsstring
  strain :: "jsstring option"
  type :: "jsstring option"
  dominantTerpene :: "tname option"
  otherTerpenes :: "tname list"
  thc :: thc

text \<open>
  \<^verbatim>\<open>parseCoa\<close> after the document has been fetched and turned into text: \<open>text\<close> is the
  text of the document at \<open>url\<close>.
  \<^verbatim>\<open>
  const strain = parseStrain(text);
  const names  = pickTopTerpenes(text, 3);
  const thc    = parseTHC(text);
  const type   = extractType(text);
  return {
    sourceUrl: url,
    strain,
    type,
    dominantTerpene: names[0] ?? null,
    otherTerpenes: names.slice(1),
    thc: { totalPercent: thc.totalPercent ?? null }
  };
  \<close>
\<close>

definition parseCoa :: "jsstring \<Rightarrow> jsstring \<Rightarrow> extraction" where
  "parseCoa url text =
     (let strain = parseStrain text;
          names = pickTopTerpenes text 3;
          thc = parseTHC text;
          type = extractType text
      in \<lparr>sourceUrl = url, strain = strain, type = type,
          dominantTerpene = (case names of [] \<Rightarrow> None | n # _ \<Rightarrow> Some n),
          otherTerpenes = drop 1 names,
          thc = \<lparr>totalPercent = totalPercent thc\<rparr>\<rparr>)"

section \<open>The server\<close>

text \<open>
  From the server (\<^verbatim>\<open>server.js\<close>), where only \<^verbatim>\<open>scrapeTrulieveLabPdf\<close> calls it:
  \<^verbatim>\<open>
  const TYPE_MAP = { I: 'Indica', H: 'Hybrid', S: 'Sativa' };
  function parseType(text) {
    if (!text) return null;
    // TRU-Flower-...-I-FL or -H-FL or -S-FL
    let m = text.match(/-([IHS])-[A-Z]{2}\b/);
    if (m) return TYPE_MAP[m[1].toUpperCase()] || null;
    // Fallback: words anywhere
    m = text.match(/\b(Indica|Sativa|Hybrid)\b/i);
    if (m) return m[1][0].toUpperCase() + m[1].slice(1).toLowerCase();
    return null;
  }
  \<close>
\<close>

definition TYPE_MAP :: "(jsstring \<times> jsstring) list" where
  "TYPE_MAP = [(str ''I'', str ''Indica''), (str ''H'', str ''Hybrid''), (str ''S'', str ''Sativa'')]"

definition re_product_code :: regex where
  "re_product_code = (False, seq
     [lit ''-'', RGrp 1 (RCls False [only CHR ''I'', only CHR ''H'', only CHR ''S'']), lit ''-'',
      rrep 2 2 (RCls False [rng CHR ''A'' CHR ''Z'']), RBnd])"

definition re_type_word :: regex where
  "re_type_word = (True, seq [RBnd, RGrp 1 (alt [lit ''Indica'', lit ''Sativa'', lit ''Hybrid'']), RBnd])"

definition parseType :: "jsstring \<Rightarrow> jsstring option" where
  "parseType text =
     (if text = [] then None
      else case js_match re_product_code text of
        Some (i, m, c) \<Rightarrow> map_of TYPE_MAP (toUpperCase (grp c 1))
      | None \<Rightarrow>
     (case js_match re_type_word text of
        Some (i, m, c) \<Rightarrow> Some (toUpperCase (take 1 (grp c 1)) @ toLowerCase (drop 1 (grp c 1)))
      | None \<Rightarrow> None))"

text \<open>
  The server has its own \<^verbatim>\<open>pickTopTerpenes\<close>, on pairs of a name and a number:
  \<^verbatim>\<open>
  function pickTopTerpenes(pairs, max = 3) {
    const sorted = pairs
      .filter(p => Number.isFinite(p.pct) && p.pct > 0)
      .sort((a, b) => b.pct - a.pct);
    return sorted.slice(0, max).map(p => p.name);
  }
  \<close>
\<close>

fun finite_value :: "jsnum \<Rightarrow> rat option" where
  "finite_value (Fin x) = Some x"
| "finite_value _ = None"

definition pickTopTerpenes_server :: "(jsstring \<times> jsnum) list \<Rightarrow> nat \<Rightarrow> jsstring list" where
  "pickTopTerpenes_server pairs limit =
     (let sorted = sort_key (\<lambda>(n, x). - x)
            (List.map_filter
               (\<lambda>(n, pct). case finite_value pct of
                    Some x \<Rightarrow> if x > 0 then Some (n, x) else None
                  | None \<Rightarrow> None) pairs)
      in map fst (take limit sorted))"

text \<open>
  The name patterns of \<^verbatim>\<open>scrapeTrulieveLabPdf\<close> in the server, on the text of the PDF with
  runs of blanks and tabs replaced by one blank:
  \<^verbatim>\<open>
  const namePatterns = [
    /(?:Strain(?: Name)?|Product(?: Name)?|Product|Variety|Cultivars?|Cultivar):\s*([^\n]+)\n?/i,
    /(?:Item|Sample(?: Name)?):\s*([^\n]+)\n?/i,
  ];
  let name;
  for (const p of namePatterns) {
    const m = text.match(p);
    if (m) { name = m[1].replace(/\s+/g, ' ').trim(); break; }
  }
  \<close>
\<close>

definition name_tail :: "re list" where
  "name_tail = [lit '':'', rstar wsp, RGrp 1 (rplus (RCls True [(10, 10)])), ropt (RChr 10)]"

definition namePatterns :: "regex list" where
  "namePatterns =
     [(True, seq (alt [seq [lit ''Strain'', ropt (lit '' Name'')],
                       seq [lit ''Product'', ropt (lit '' Name'')],
                       lit ''Product'', lit ''Variety'',
                       seq [lit ''Cultivar'', ropt (lit ''s'')], lit ''Cultivar''] # name_tail)),
      (True, seq (alt [lit ''Item'', seq [lit ''Sample'', ropt (lit '' Name'')]] # name_tail))]"

fun namePatterns_loop :: "regex list \<Rightarrow> jsstring \<Rightarrow> jsstring option" where
  "namePatterns_loop [] text = None"
| "namePatterns_loop (rx # pats) text =
     (case js_match rx text of
        Some (i, m, c) \<Rightarrow> Some (trim (js_replace (False, rplus wsp) space (grp c 1)))
      | None \<Rightarrow> namePatterns_loop pats text)"

section \<open>Texts that show a value\<close>

text \<open>
  The patterns of \<^verbatim>\<open>parseTHC\<close> read a value where the text has a label, a window without
  digits, a decimal number, blanks and a unit. The conditions below say that of a text in
  terms of its characters; the properties of \<^verbatim>\<open>parseTHC\<close> are stated with them.
\<close>

text \<open>The code unit before the position that follows \<open>xs\<close>, where \<open>p\<close> is the one before \<open>xs\<close>.\<close>

definition prev_after :: "jschar option \<Rightarrow> jsstring \<Rightarrow> jschar option" where
  "prev_after p xs = (if xs = [] then p else Some (last xs))"

text \<open>\<open>s\<close> starts with \<open>w\<close>, up to the case of the letters, as the flag \<^verbatim>\<open>i\<close> compares them.\<close>

fun ci_starts :: "jsstring \<Rightarrow> jsstring \<Rightarrow> bool" where
  "ci_starts s [] = True"
| "ci_starts [] (y # ys) = False"
| "ci_starts (x # xs) (y # ys) = (canonicalize True x = canonicalize True y \<and> ci_starts xs ys)"

text \<open>
  No occurrence of \<open>w\<close> starts at one of the first \<open>n\<close> positions of \<open>s\<close>; \<open>w\<close> occurs
  nowhere in \<open>s\<close>.
\<close>

definition first_at :: "jsstring \<Rightarrow> nat \<Rightarrow> jsstring \<Rightarrow> bool" where
  "first_at w n s = list_all (\<lambda>i. \<not> ci_starts (drop i s) w) [0..<n]"

definition lacks :: "jsstring \<Rightarrow> jsstring \<Rightarrow> bool" where
  "lacks w s = first_at w (Suc (length s)) s"

text \<open>
  The window between a label and its value, \<^verbatim>\<open>[^0-9]{0,40}\<close> after \<^verbatim>\<open>\b\<close>: at most 40
  code units, none of them a digit, the first one not a word character.
\<close>

definition window :: "jsstring \<Rightarrow> bool" where
  "window gap =
     (length gap \<le> 40 \<and> list_all (\<lambda>x. \<not> in_ranges digit x) gap
      \<and> (case gap of [] \<Rightarrow> False | g # _ \<Rightarrow> \<not> in_ranges wordc g))"

text \<open>
  A value as the patterns read it, written with a dot: one to \<open>n\<close> digits, then possibly
  a dot and one or two digits. \<open>frac_part fp\<close> is the dot and the digits \<open>fp\<close>, if there
  are any.
\<close>

definition decimal :: "nat \<Rightarrow> jsstring \<Rightarrow> bool" where
  "decimal n num =
     (let ip = takeWhile (in_ranges digit) num; fr = dropWhile (in_ranges digit) num
      in ip \<noteq> [] \<and> length ip \<le> n
         \<and> (fr = [] \<or> (hd fr = 46 \<and> tl fr \<noteq> [] \<and> length (tl fr) \<le> 2
                        \<and> list_all (in_ranges digit) (tl fr))))"

definition frac_part :: "jsstring \<Rightarrow> jsstring" where
  "frac_part fp = (if fp = [] then [] else 46 # fp)"

text \<open>White space only.\<close>

definition blanks :: "jsstring \<Rightarrow> bool" where
  "blanks sp = list_all (in_ranges ws) sp"

text \<open>
  \<open>labelled T L n U flat (pre, gap, num, sp, post)\<close>: the text \<open>flat\<close> is \<open>pre\<close>, the label
  \<open>L\<close>, the window \<open>gap\<close>, the value \<open>num\<close> of at most \<open>n\<close> integer digits, the blanks
  \<open>sp\<close>, the unit \<open>U\<close> and \<open>post\<close>; the label starts at a word boundary, and no
  occurrence of \<open>T\<close>, the first letters of the label, starts before it.
\<close>

definition labelled ::
  "string \<Rightarrow> string \<Rightarrow> nat \<Rightarrow> string \<Rightarrow> jsstring
     \<Rightarrow> jsstring \<times> jsstring \<times> jsstring \<times> jsstring \<times> jsstring \<Rightarrow> bool" where
  "labelled T L n U flat parts =
     (case parts of (pre, gap, num, sp, post) \<Rightarrow>
        flat = pre @ str L @ gap @ num @ sp @ str U @ post
        \<and> first_at (str T) (length pre) flat
        \<and> \<not> is_word (prev_after None pre)
        \<and> window gap \<and> decimal n num \<and> blanks sp)"

text \<open>The first value of a list that is not \<^verbatim>\<open>null\<close>.\<close>

fun first_of :: "'a option list \<Rightarrow> 'a option" where
  "first_of [] = None"
| "first_of (None # xs) = first_of xs"
| "first_of (Some v # xs) = Some v"

text \<open>
  \<open>round(x, 2)\<close> as the specification writes it, on the exact value: the nearest multiple
  of 1/100, a tie going up.
\<close>

definition spec_round2 :: "rat \<Rightarrow> rat" where
  "spec_round2 x = of_int \<lfloor>x * 100 + 1 / 2\<rfloor> / 100"

section \<open>Example texts\<close>




text \<open>
  The example of the specification: THCA = 20% and Delta-9 = 0.3% give 17.84. Two texts
  with one value only, in mg/g. Two texts where \<open>0.877 * thca\<close> is halfway between two
  multiples of 1/100.
\<close>

definition computed_example :: jsstring where
  "computed_example = str ''THCA: 20% Delta-9 THC: 0.3%''"

definition thca_mg_example :: jsstring where
  "thca_mg_example = str ''THC-A: 250 mg/g''"

definition d9_mg_example :: jsstring where
  "d9_mg_example = str ''D9: 3 mg/g''"

definition thca_15_example :: jsstring where
  "thca_15_example = str ''THCA: 15%''"

definition thca_25_example :: jsstring where
  "thca_25_example = str ''THCA: 25%''"

text \<open>Three terpene lines.\<close>

definition coa_example :: jsstring where
  "coa_example = str ''Myrcene 1.2%'' @ [10] @ str ''Limonene 0.8%'' @ [10] @ str ''Caryophyllene 0.4%''"

text \<open>Applying \<^verbatim>\<open>canonTerp\<close> to its own result changes nothing.\<close>

definition idempotent_on :: "jsstring \<Rightarrow> bool" where
  "idempotent_on k =
     (case canonTerp k of Some (TStr c) \<Rightarrow> canonTerp c = Some (TStr c) | _ \<Rightarrow> False)"

section \<open>Running the scraper\<close>

text \<open>The definitions that the simplifier unfolds to run the scraper on a concrete text.\<close>

lemma floor_numeral_div: "\<lfloor>numeral a / numeral b :: rat\<rfloor> = numeral a div numeral b"
  using floor_divide_of_int_eq [of "numeral a" "numeral b", where ?'a = rat] by simp

lemmas num_defs = expo_def expo_hi.simps expo_lo.simps round_even_def ulp_def fl_def dmul_def
  dadd_def ddiv_def floor_numeral_div

lemmas str_defs = str_def micro_def alpha_def beta_def Delta_def toUpperUnit_def toLowerUnit_def
  toLowerCase_def toUpperCase_def in_ranges_def only_def rng_def ws_def digit_def wordc_def
  trim_def canonicalize_def variants_def is_word_def js_match_def js_test_def grp_def
  js_replace_def js_matchAll_def js_split_def

lemmas util_defs = num_defs KNOWN_TERPENES_def SYN_def digits_val_def unsigned_val_def parseFloat_def
  re_number_def toFloatSafe_def unitFrom_def mgPerGToPercent_def ugPerGToPercent_def SYN_get_def
  re_alpha_pinene_def re_beta_pinene_def re_pinene_def greek_replace_def canonTerp_def
  re_percent_context_def hasPercentContext_def re_join1_def re_join2_def dollar_1_dot_2_def
  joinWeirdDecimals_def re_ws2_def space_def

lemmas parser_defs = label_sep_def strain_pats_def re_crlf_def parseStrain_def re_lines_def
  nameRegex_def re_nums_def pickNum_def terpRow_def collectTerpenesAsPercent_def sort_desc_def
  halve_pinene_def pickTopTerpenes_def re_newlines_def normalizeForTHC_def firstNumber_def
  thc_value_def pct_unit_def mg_unit_def lbl_total_def lbl_thc_a_def lbl_thca_def
  lbl_delta9_thc_def lbl_d9_def thc_re_def re_total_pct_def re_total_mg_def re_thc_a_pct_def
  re_thca_pct_def re_delta9_pct_def re_d9_pct_def re_thc_a_mg_def re_thca_mg_def re_delta9_mg_def
  re_d9_mg_def nullish_def hundredths_def toFixed2_def locate_thca_def
  locate_d9_def or0_def parseTHC_def re_sih_def pickSih_def re_type_row_def pickTypeRow_def
  truthy_def extractType_def parseCoa_def List.map_filter_def

section \<open>Properties of fixPercentOverflow\<close>

lemma fixLoop_Fin: "fixLoop (Fin q) = Some (Fin (fixFinite q))"
proof (induction q rule: fixFinite.induct)
  case (1 v)
  show ?case
  proof (cases "100 < v")
    case True
    then show ?thesis using 1 by (subst fixLoop.simps, subst fixFinite.simps) simp
  next
    case False
    then show ?thesis by (subst fixLoop.simps, subst fixFinite.simps) simp
  qed
qed

lemma fixFinite_le: "fixFinite v \<le> 100"
  by (induction v rule: fixFinite.induct) (subst fixFinite.simps, simp)

lemma fixFinite_small: "v \<le> 100 \<Longrightarrow> fixFinite v = v"
  by (subst fixFinite.simps) simp

lemma fixLoop_NInf: "fixLoop NInf = Some NInf"
  by (subst fixLoop.simps) simp

lemma fixLoop_NaN: "fixLoop NaN = Some NaN"
  by (subst fixLoop.simps) simp

lemma fixLoop_PInf: "fixLoop PInf = None"
proof -
  have "fixLoop v = Some y \<Longrightarrow> v \<noteq> PInf" for v y
    by (rule fixLoop.raw_induct [where P = "\<lambda>v y. v \<noteq> PInf"])
       (force split: if_splits)+
  then show ?thesis by (cases "fixLoop PInf") auto
qed

text \<open>
  C9. The loop of \<^verbatim>\<open>fixPercentOverflow\<close> returns on every finite number: its result is
  the value of the total function \<open>fixFinite\<close>, defined by well-founded recursion on
  finite numbers.
\<close>

theorem fixPercentOverflow_terminates_finite:
  "fixPercentOverflow (Some (Fin q)) = Some (Some (Fin (fixFinite q)))"
  by (simp add: fixPercentOverflow_def fixLoop_Fin)

text \<open>
  C8, as the code has it. On every number other than \<^verbatim>\<open>NaN\<close> and \<^verbatim>\<open>+Infinity\<close> the
  function returns a value that is at most 100 and that a second application returns
  unchanged.
\<close>

theorem fixPercentOverflow_idempotent_bounded:
  "v \<noteq> PInf \<Longrightarrow> v \<noteq> NaN \<Longrightarrow>
   (\<exists>r. fixPercentOverflow (Some v) = Some (Some r)
      \<and> js_le r 100
      \<and> (\<exists>r'. fixPercentOverflow (Some r) = Some (Some r') \<and> js_eq r' r))"
proof (cases v)
  case (Fin q)
  have "fixFinite (fixFinite q) = fixFinite q"
    by (rule fixFinite_small) (rule fixFinite_le)
  then show ?thesis
    using Fin by (simp add: fixPercentOverflow_def fixLoop_Fin fixFinite_le)
next
  case NInf
  then show ?thesis by (simp add: fixPercentOverflow_def fixLoop_NInf)
qed simp_all

theorem fixPercentOverflow_idempotent_bounded_witness:
  "Fin 1050 \<noteq> PInf \<and> Fin 1050 \<noteq> NaN
   \<and> fixPercentOverflow (Some (Fin 1050)) = Some (Some (Fin (21 / 2)))
   \<and> js_le (Fin (21 / 2)) 100
   \<and> fixPercentOverflow (Some (Fin (21 / 2))) = Some (Some (Fin (21 / 2)))"
proof -
  have e: "fixFinite 1050 = 21 / 2" "fixFinite (21 / 2) = 21 / 2"
    by (simp_all add: fixFinite.simps num_defs)
  show ?thesis
    using fixPercentOverflow_idempotent_bounded [of "Fin 1050"] e
    by (simp add: fixPercentOverflow_def fixLoop_Fin)
qed

text \<open>
  C8, as stated, fails: on \<^verbatim>\<open>+Infinity\<close> the loop never ends, and on \<^verbatim>\<open>NaN\<close> the
  function returns \<^verbatim>\<open>NaN\<close>, which is neither at most 100 nor equal to itself.
\<close>

theorem fixPercentOverflow_all_numbers_counterexample:
  "fixPercentOverflow (Some PInf) = None
   \<and> fixPercentOverflow (Some NaN) = Some (Some NaN)
   \<and> \<not> js_le NaN 100 \<and> \<not> js_eq NaN NaN"
  by (simp add: fixPercentOverflow_def fixLoop_PInf fixLoop_NaN)

section \<open>The first match of a pattern\<close>

text \<open>
  What the matcher reports first on a text of a given shape: the rules for a sequence, a
  group, an optional part and a greedy run of one class, and the search for the first
  start.
\<close>

lemma first_matchI: "matches ic r st = st' # sts \<Longrightarrow> first_match ic r st = Some st'"
  by (simp add: first_match_def)

lemma first_matchE: "first_match ic r st = Some st' \<Longrightarrow> \<exists>sts. matches ic r st = st' # sts"
  by (cases "matches ic r st") (simp_all add: first_match_def)

lemma first_seq:
  "first_match ic a st = Some st1 \<Longrightarrow> first_match ic b st1 = Some st2 \<Longrightarrow>
   first_match ic (RSeq a b) st = Some st2"
proof -
  assume "first_match ic a st = Some st1" "first_match ic b st1 = Some st2"
  then obtain m1 m2 where "matches ic a st = st1 # m1" "matches ic b st1 = st2 # m2"
    by (blast dest: first_matchE)
  then show ?thesis by (simp add: first_match_def)
qed

lemma first_grp:
  "first_match ic a (p, s, c) = Some (p', s', c') \<Longrightarrow>
   first_match ic (RGrp k a) (p, s, c) = Some (p', s', c'(k := Some (take (length s - length s') s)))"
proof -
  assume "first_match ic a (p, s, c) = Some (p', s', c')"
  then obtain m1 where "matches ic a (p, s, c) = (p', s', c') # m1"
    by (blast dest: first_matchE)
  then show ?thesis by (simp add: first_match_def)
qed

lemma first_opt:
  "first_match ic r (p, s, c) = Some (p', s', c') \<Longrightarrow> length s' < length s \<Longrightarrow>
   first_match ic (ropt r) (p, s, c) = Some (p', s', c')"
proof -
  assume "first_match ic r (p, s, c) = Some (p', s', c')" and l: "length s' < length s"
  then obtain m1 where "matches ic r (p, s, c) = (p', s', c') # m1"
    by (blast dest: first_matchE)
  then show ?thesis using l by (simp add: first_match_def)
qed

lemma first_opt_skip:
  "matches ic r (p, s, c) = [] \<Longrightarrow> first_match ic (ropt r) (p, s, c) = Some (p, s, c)"
  by (simp add: first_match_def)

lemma search_hit:
  "first_match ic r (p, s, \<lambda>_. None) = Some (p', s', c') \<Longrightarrow>
   search ic r p s k = Some (k, take (length s - length s') s, c')"
proof -
  assume "first_match ic r (p, s, \<lambda>_. None) = Some (p', s', c')"
  then obtain m1 where "matches ic r (p, s, \<lambda>_. None) = (p', s', c') # m1"
    by (blast dest: first_matchE)
  then show ?thesis by (cases s) simp_all
qed

lemma search_skip:
  "\<forall>i < length pre. \<forall>q. matches ic r (q, drop i (pre @ s), \<lambda>_. None) = [] \<Longrightarrow>
   search ic r p (pre @ s) k = search ic r (prev_after p pre) s (k + length pre)"
proof (induction pre arbitrary: p k)
  case Nil
  then show ?case by (simp add: prev_after_def)
next
  case (Cons x xs)
  have 0: "matches ic r (p, x # xs @ s, \<lambda>_. None) = []"
    using Cons.prems [rule_format, of 0 p] by simp
  have "\<forall>i < length xs. \<forall>q. matches ic r (q, drop i (xs @ s), \<lambda>_. None) = []"
  proof (intro allI impI)
    fix i q assume "i < length xs"
    then show "matches ic r (q, drop i (xs @ s), \<lambda>_. None) = []"
      using Cons.prems [rule_format, of "Suc i" q] by simp
  qed
  from Cons.IH [OF this, of "Some x" "Suc k"] 0 show ?case
    by (simp add: prev_after_def)
qed

lemma search_none:
  "\<forall>i \<le> length s. \<forall>q. matches ic r (q, drop i s, \<lambda>_. None) = [] \<Longrightarrow> search ic r p s k = None"
proof (induction s arbitrary: p k)
  case Nil
  then show ?case by simp
next
  case (Cons x xs)
  have 0: "matches ic r (p, x # xs, \<lambda>_. None) = []"
    using Cons.prems [rule_format, of 0 p] by simp
  have "\<forall>i \<le> length xs. \<forall>q. matches ic r (q, drop i xs, \<lambda>_. None) = []"
  proof (intro allI impI)
    fix i q assume "i \<le> length xs"
    then show "matches ic r (q, drop i xs, \<lambda>_. None) = []"
      using Cons.prems [rule_format, of "Suc i" q] by simp
  qed
  from Cons.IH [OF this, of "Some x" "Suc k"] 0 show ?case by simp
qed

lemma first_run:
  assumes "\<forall>x \<in> set xs. list_ex (in_ranges rs) (variants ic x) \<noteq> neg"
    and "case hi of None \<Rightarrow> True | Some n \<Rightarrow> length xs \<le> n"
    and "rest = [] \<or> \<not> (list_ex (in_ranges rs) (variants ic (hd rest)) \<noteq> neg)"
  shows "first_match ic (RRep 0 hi True (RCls neg rs)) (p, xs @ rest, c) = Some (prev_after p xs, rest, c)"
  using assms(1,2)
proof (induction xs arbitrary: p hi)
  case Nil
  have "matches ic (RCls neg rs) (p, rest, c) = []"
    using assms(3) by (cases rest) auto
  then show ?case by (simp add: first_match_def prev_after_def)
next
  case (Cons x xs)
  have hi: "hi \<noteq> Some 0" using Cons.prems(2) by (auto split: option.splits)
  have d: "case dec hi of None \<Rightarrow> True | Some n \<Rightarrow> length xs \<le> n"
    using Cons.prems(2) by (cases hi) auto
  have x: "matches ic (RCls neg rs) (p, (x # xs) @ rest, c) = [(Some x, xs @ rest, c)]"
    using Cons.prems(1) by simp
  from Cons.IH [OF _ d, of "Some x"] Cons.prems(1)
  have "first_match ic (RRep 0 (dec hi) True (RCls neg rs)) (Some x, xs @ rest, c)
        = Some (prev_after (Some x) xs, rest, c)" by simp
  then obtain sts where m: "matches ic (RRep 0 (dec hi) True (RCls neg rs)) (Some x, xs @ rest, c)
        = (prev_after (Some x) xs, rest, c) # sts" by (auto dest: first_matchE)
  have p: "prev_after (Some x) xs = prev_after p (x # xs)" by (simp add: prev_after_def)
  show ?case
    apply (rule first_matchI [where sts = "sts @ [(p, (x # xs) @ rest, c)]"])
    apply (subst matches.simps)
    using hi x m p apply (simp del: matches.simps)
    done
qed

lemma first_run_plus:
  assumes "\<forall>x \<in> set xs. list_ex (in_ranges rs) (variants ic x) \<noteq> neg"
    and "xs \<noteq> []"
    and "case hi of None \<Rightarrow> True | Some n \<Rightarrow> length xs \<le> n"
    and "rest = [] \<or> \<not> (list_ex (in_ranges rs) (variants ic (hd rest)) \<noteq> neg)"
  shows "first_match ic (RRep (Suc 0) hi True (RCls neg rs)) (p, xs @ rest, c) = Some (Some (last xs), rest, c)"
proof -
  from assms(2) obtain y ys where xs: "xs = y # ys" by (cases xs) auto
  have y: "matches ic (RCls neg rs) (p, xs @ rest, c) = [(Some y, ys @ rest, c)]"
    using assms(1) by (simp add: xs)
  have d: "case dec hi of None \<Rightarrow> True | Some n \<Rightarrow> length ys \<le> n"
    using assms(3) by (cases hi) (auto simp: xs)
  have "first_match ic (RRep 0 (dec hi) True (RCls neg rs)) (Some y, ys @ rest, c)
        = Some (prev_after (Some y) ys, rest, c)"
    using assms(1) d assms(4) by (intro first_run) (simp_all add: xs)
  moreover have "prev_after (Some y) ys = Some (last xs)" by (simp add: prev_after_def xs)
  moreover have "matches ic (RRep (Suc 0) hi True (RCls neg rs)) (p, xs @ rest, c)
        = matches ic (RRep 0 (dec hi) True (RCls neg rs)) (Some y, ys @ rest, c)"
    by (subst matches.simps) (simp add: y del: matches.simps)
  ultimately show ?thesis by (simp add: first_match_def del: matches.simps)
qed

text \<open>A match only consumes input: what is left is part of what was there.\<close>

lemma matches_rest:
  "st' \<in> set (matches ic r st) \<Longrightarrow> set (fst (snd st')) \<subseteq> set (fst (snd st))"
proof (induction ic r st arbitrary: st' rule: matches.induct)
  case (1 ic a p s c)
  then show ?case by (auto split: list.splits if_splits)
next
  case (2 ic neg rs p s c)
  then show ?case by (auto split: list.splits if_splits)
next
  case (3 ic p s c)
  then show ?case by (auto split: list.splits if_splits)
next
  case (4 ic st)
  then show ?case by simp
next
  case (5 ic a b st)
  from "5.prems" obtain st1 where 1: "st1 \<in> set (matches ic a st)" and 2: "st' \<in> set (matches ic b st1)"
    by auto
  from "5.IH"(1) [OF 1] "5.IH"(2) [OF 1 2] show ?case by blast
next
  case (6 ic a b st)
  from "6.prems" have "st' \<in> set (matches ic a st) \<or> st' \<in> set (matches ic b st)" by simp
  then show ?case using "6.IH" by blast
next
  case (7 ic k a p s c)
  from "7.prems" obtain st1 where 1: "st1 \<in> set (matches ic a (p, s, c))"
    and 2: "fst (snd st') = fst (snd st1)" by (auto split: prod.splits)
  from "7.IH" [OF 1] 2 show ?case by simp
next
  case (8 ic p s c)
  then show ?case by (auto split: if_splits)
next
  case (9 ic p s c)
  then show ?case by (auto split: if_splits)
next
  case (10 ic a p s c)
  then show ?case by (auto split: list.splits)
next
  case (11 ic lo hi g a p s c)
  show ?case
  proof (cases "0 < lo")
    case True
    with "11.prems" obtain st1 where 1: "st1 \<in> set (matches ic a (p, s, c))"
      and 2: "st' \<in> set (matches ic (RRep (lo - 1) (dec hi) g a) st1)"
      by (subst (asm) matches.simps) (auto simp del: matches.simps)
    from "11.IH"(1) [OF True 1] "11.IH"(2) [OF True 1 2] show ?thesis by auto
  next
    case False
    show ?thesis
    proof (cases "hi = Some 0")
      case True
      with False "11.prems" show ?thesis by (subst (asm) matches.simps) (auto simp del: matches.simps)
    next
      case hi: False
      from "11.prems" False hi
      consider "st' = (p, s, c)"
        | st1 where "st1 \<in> set (matches ic a (p, s, c))" "length (fst (snd st1)) < length s"
            "st' \<in> set (matches ic (RRep 0 (dec hi) g a) st1)"
        by (subst (asm) matches.simps) (auto simp del: matches.simps simp: Let_def split: if_splits)
      then show ?thesis
      proof cases
        case 1
        then show ?thesis by simp
      next
        case (2 st1)
        have m: "st1 \<in> set (filter (\<lambda>st'. length (fst (snd st')) < length s) (matches ic a (p, s, c)))"
          using 2 by simp
        from "11.IH"(3) [OF False hi 2(1)] "11.IH"(4) [OF False hi m 2(3)] show ?thesis by auto
      qed
    qed
  qed
qed

lemma chr_absent: "a < 65 \<Longrightarrow> a \<notin> set s \<Longrightarrow> matches True (RChr a) (p, s, c) = []"
  by (cases s) (auto simp: canonicalize_def toUpperUnit_def Let_def split: if_splits)

lemma seq_absent:
  assumes "\<And>st1. a \<notin> set (fst (snd st1)) \<Longrightarrow> matches ic r2 st1 = []"
    and "a \<notin> set (fst (snd st))"
  shows "matches ic (RSeq r1 r2) st = []"
proof -
  have "matches ic r2 st1 = []" if "st1 \<in> set (matches ic r1 st)" for st1
    using matches_rest [OF that] assms by blast
  then show ?thesis by (simp del: matches.simps(11))
qed

text \<open>The classes \<^verbatim>\<open>\d\<close>, \<^verbatim>\<open>\s\<close> and \<^verbatim>\<open>[.,]\<close> do not depend on the flag \<^verbatim>\<open>i\<close>.\<close>

lemma variants_class:
  assumes "\<And>y. in_ranges rs (toUpperUnit y) = in_ranges rs y"
    and "\<And>y. in_ranges rs (toLowerUnit y) = in_ranges rs y"
    and "\<not> in_ranges rs 181" and "\<not> in_ranges rs 962"
  shows "list_ex (in_ranges rs) (variants ic x) = in_ranges rs x"
proof -
  have "in_ranges rs (canonicalize b x) = in_ranges rs x" for b
    by (simp add: canonicalize_def Let_def assms(1))
  then show ?thesis using assms(3,4) by (simp add: variants_def Let_def assms(2))
qed

lemma variants_digit: "list_ex (in_ranges digit) (variants ic x) = in_ranges digit x"
  by (rule variants_class) (auto simp: toUpperUnit_def toLowerUnit_def in_ranges_def digit_def)

lemma variants_ws: "list_ex (in_ranges ws) (variants ic x) = in_ranges ws x"
  by (rule variants_class) (auto simp: toUpperUnit_def toLowerUnit_def in_ranges_def ws_def)

lemma variants_pt:
  "list_ex (in_ranges [only CHR ''.'', only CHR '','']) (variants ic x) = (x = 46 \<or> x = 44)"
proof -
  have "list_ex (in_ranges [only CHR ''.'', only CHR '','']) (variants ic x)
        = in_ranges [only CHR ''.'', only CHR '',''] x"
    by (rule variants_class) (auto simp: toUpperUnit_def toLowerUnit_def in_ranges_def only_def)
  then show ?thesis by (auto simp: in_ranges_def only_def)
qed

lemma ws_plain: "in_ranges ws x \<Longrightarrow> \<not> in_ranges digit x \<and> x \<noteq> 46 \<and> x \<noteq> 44"
  by (auto simp: in_ranges_def ws_def digit_def)

text \<open>A literal does not match where the text does not start with it.\<close>

lemma str_Cons: "str (x # xs) = of_char x # str xs"
  by (simp add: str_def)

lemma ci_starts_prefix: "ci_starts s (w @ v) \<Longrightarrow> ci_starts s w"
  by (induction s w rule: ci_starts.induct) simp_all

lemma matches_lit_fail:
  "\<not> ci_starts s (str w) \<Longrightarrow> matches True (lit w) (q, s, c) = []"
proof (induction w arbitrary: q s rule: lit.induct)
  case 1
  then show ?case by (simp add: str_def)
next
  case (2 x)
  then show ?case by (cases s) (simp_all add: str_def)
next
  case (3 x y ys)
  show ?case
  proof (cases s)
    case Nil
    then show ?thesis by simp
  next
    case (Cons a as)
    show ?thesis
    proof (cases "canonicalize True a = canonicalize True (of_char x)")
      case True
      with 3 Cons have "\<not> ci_starts as (str (y # ys))" by (simp add: str_Cons)
      from "3.IH" [OF this] show ?thesis using Cons True by simp
    next
      case False
      then show ?thesis using Cons by simp
    qed
  qed
qed

text \<open>The value, the two units and the number that \<^verbatim>\<open>toFloatSafe\<close> reads.\<close>

lemma first_value:
  assumes gap: "\<forall>x \<in> set gap. \<not> in_ranges digit x" "length gap \<le> 40"
    and ip: "ip \<noteq> []" "length ip \<le> n" "\<forall>x \<in> set ip. in_ranges digit x"
    and fp: "\<forall>x \<in> set fp. in_ranges digit x" "length fp \<le> 2"
    and t: "\<not> in_ranges digit t" "t \<noteq> 46" "t \<noteq> 44"
  shows "first_match True (thc_value n) (p, gap @ (ip @ frac_part fp) @ t # ts, c)
         = Some (Some (last (ip @ frac_part fp)), t # ts, c(1 := Some (ip @ frac_part fp)))"
proof -
  let ?num = "ip @ frac_part fp"
  let ?p1 = "prev_after p gap"
  have hd_num: "in_ranges digit (hd (?num @ t # ts))" using ip by (cases ip) auto
  have 1: "first_match True (rrep 0 40 (RCls True digit)) (p, gap @ ?num @ t # ts, c)
           = Some (?p1, ?num @ t # ts, c)"
    using gap hd_num by (intro first_run) (simp_all add: variants_digit)
  have hd_frac: "\<not> in_ranges digit (hd (frac_part fp @ t # ts))"
    using t by (simp add: frac_part_def in_ranges_def digit_def)
  have 2: "first_match True (rrep 1 n dig) (?p1, ip @ frac_part fp @ t # ts, c)
           = Some (Some (last ip), frac_part fp @ t # ts, c)"
    using ip hd_frac by (simp only: One_nat_def, intro first_run_plus) (simp_all add: variants_digit)
  let ?pt = "RCls False [only CHR ''.'', only CHR '','']"
  have 3: "first_match True (ropt (RSeq ?pt (rrep 1 2 dig))) (Some (last ip), frac_part fp @ t # ts, c)
           = Some (Some (last ?num), t # ts, c)"
  proof (cases "fp = []")
    case True
    have "matches True (RSeq ?pt (rrep 1 2 dig)) (Some (last ip), t # ts, c) = []"
      using t by (simp add: variants_pt del: matches.simps(11))
    then have "first_match True (ropt (RSeq ?pt (rrep 1 2 dig))) (Some (last ip), t # ts, c)
          = Some (Some (last ip), t # ts, c)" by (rule first_opt_skip)
    then show ?thesis using True ip by (simp add: frac_part_def del: matches.simps)
  next
    case False
    have a: "first_match True ?pt (Some (last ip), 46 # fp @ t # ts, c) = Some (Some 46, fp @ t # ts, c)"
      by (simp add: first_match_def variants_pt)
    have b: "first_match True (rrep 1 2 dig) (Some 46, fp @ t # ts, c) = Some (Some (last fp), t # ts, c)"
      using fp False t by (simp only: One_nat_def, intro first_run_plus) (simp_all add: variants_digit)
    have "first_match True (RSeq ?pt (rrep 1 2 dig)) (Some (last ip), 46 # fp @ t # ts, c)
          = Some (Some (last fp), t # ts, c)"
      using a b by (rule first_seq)
    then have "first_match True (ropt (RSeq ?pt (rrep 1 2 dig))) (Some (last ip), 46 # fp @ t # ts, c)
          = Some (Some (last fp), t # ts, c)"
      by (rule first_opt) simp
    then show ?thesis using False by (simp add: frac_part_def del: matches.simps)
  qed
  have 4: "first_match True (RSeq (rrep 1 n dig) (ropt (RSeq ?pt (rrep 1 2 dig)))) (?p1, ?num @ t # ts, c)
           = Some (Some (last ?num), t # ts, c)"
    using 2 3 by (intro first_seq [where ?st1.0 = "(Some (last ip), frac_part fp @ t # ts, c)"]) simp_all
  have 5: "first_match True (RGrp 1 (RSeq (rrep 1 n dig) (ropt (RSeq ?pt (rrep 1 2 dig))))) (?p1, ?num @ t # ts, c)
           = Some (Some (last ?num), t # ts, c(1 := Some ?num))"
    using first_grp [OF 4, of 1] by simp
  show ?thesis
    unfolding thc_value_def seq.simps
    using 1 5 by (intro first_seq [where ?st1.0 = "(?p1, ?num @ t # ts, c)"]) simp_all
qed

lemma first_pct_unit:
  assumes "\<forall>x \<in> set sp. in_ranges ws x"
  shows "first_match True pct_unit (p, sp @ 37 # post, c) = Some (Some 37, post, c)"
proof -
  have "\<not> in_ranges ws 37" by (simp add: in_ranges_def ws_def)
  then have "first_match True (rstar wsp) (p, sp @ 37 # post, c) = Some (prev_after p sp, 37 # post, c)"
    using assms by (intro first_run) (simp_all add: variants_ws)
  moreover have "first_match True (lit ''%'') (prev_after p sp, 37 # post, c) = Some (Some 37, post, c)"
    by (simp add: first_match_def str_defs)
  ultimately show ?thesis unfolding pct_unit_def seq.simps by (rule first_seq)
qed

lemma first_mg_unit:
  assumes "\<forall>x \<in> set sp. in_ranges ws x"
  shows "first_match True mg_unit (p, sp @ str ''mg/g'' @ post, c) = Some (Some 103, post, c)"
proof -
  have "\<not> in_ranges ws 109" by (simp add: in_ranges_def ws_def)
  then have "first_match True (rstar wsp) (p, sp @ str ''mg/g'' @ post, c)
      = Some (prev_after p sp, str ''mg/g'' @ post, c)"
    using assms by (intro first_run) (simp_all add: variants_ws str_def)
  moreover have "first_match True (seq [lit ''mg'', rstar wsp, lit ''/'', rstar wsp, lit ''g''])
      (prev_after p sp, str ''mg/g'' @ post, c) = Some (Some 103, post, c)"
    by (simp add: first_match_def str_defs)
  ultimately show ?thesis unfolding mg_unit_def seq.simps by (rule first_seq)
qed

lemma decimalE:
  assumes "decimal n num"
  obtains ip fp where "num = ip @ frac_part fp" "ip \<noteq> []" "length ip \<le> n"
    "\<forall>x \<in> set ip. in_ranges digit x" "\<forall>x \<in> set fp. in_ranges digit x" "length fp \<le> 2"
proof -
  define ip where "ip = takeWhile (in_ranges digit) num"
  define fr where "fr = dropWhile (in_ranges digit) num"
  have num: "num = ip @ fr" by (simp add: ip_def fr_def)
  have d: "\<forall>x \<in> set ip. in_ranges digit x" by (auto simp: ip_def dest: set_takeWhileD)
  have a: "ip \<noteq> []" "length ip \<le> n"
    and b: "fr = [] \<or> (hd fr = 46 \<and> tl fr \<noteq> [] \<and> length (tl fr) \<le> 2 \<and> list_all (in_ranges digit) (tl fr))"
    using assms by (simp_all add: decimal_def Let_def ip_def fr_def)
  show thesis
  proof (cases "fr = []")
    case True
    show thesis by (rule that [of ip "[]"]) (use num a d True in \<open>simp_all add: frac_part_def\<close>)
  next
    case False
    with b have "fr = 46 # tl fr" by (cases fr) auto
    then have "num = ip @ frac_part (tl fr)" using b False num by (simp add: frac_part_def)
    then show thesis
      by (rule that [of ip "tl fr"]) (use a d b False in \<open>simp_all add: list_all_iff\<close>)
  qed
qed

lemma toFloatSafe_decimal:
  assumes ip: "ip \<noteq> []" "\<forall>x \<in> set ip. in_ranges digit x"
    and fp: "\<forall>x \<in> set fp. in_ranges digit x"
  shows "toFloatSafe (Some (ip @ frac_part fp)) = Some (parseFloat (ip @ frac_part fp))"
proof -
  let ?num = "ip @ frac_part fp"
  let ?c = "\<lambda>_::nat. None :: jsstring option"
  have no_comma: "\<forall>x \<in> set ?num. x \<noteq> 44"
    using ip fp by (auto simp: frac_part_def in_ranges_def digit_def)
  then have f: "filter (\<lambda>c. c \<noteq> 44) ?num = ?num" by simp
  have hd_ip: "hd ?num \<noteq> 45" using ip by (cases ip) (auto simp: in_ranges_def digit_def)
  have 1: "first_match False (ropt (lit ''-'')) (None, ?num, ?c) = Some (None, ?num, ?c)"
  proof (rule first_opt_skip)
    show "matches False (lit ''-'') (None, ?num, ?c) = []"
      using hd_ip ip by (cases ip) (simp_all add: canonicalize_def)
  qed
  have hd_frac: "frac_part fp = [] \<or> \<not> in_ranges digit (hd (frac_part fp))"
    by (simp add: frac_part_def in_ranges_def digit_def)
  have 2: "first_match False (rplus dig) (None, ip @ frac_part fp, ?c) = Some (Some (last ip), frac_part fp, ?c)"
    using ip hd_frac by (simp only: One_nat_def, intro first_run_plus) (simp_all add: variants_digit)
  have 3: "first_match False (ropt (RSeq (lit ''.'') (rplus dig))) (Some (last ip), frac_part fp, ?c)
           = Some (Some (last ?num), [], ?c)"
  proof (cases "fp = []")
    case True
    have "matches False (RSeq (lit ''.'') (rplus dig)) (Some (last ip), [], ?c) = []" by simp
    then have "first_match False (ropt (RSeq (lit ''.'') (rplus dig))) (Some (last ip), [], ?c)
        = Some (Some (last ip), [], ?c)" by (rule first_opt_skip)
    then show ?thesis using True ip by (simp add: frac_part_def del: matches.simps)
  next
    case False
    have a: "first_match False (lit ''.'') (Some (last ip), 46 # fp @ [], ?c) = Some (Some 46, fp @ [], ?c)"
      by (simp add: first_match_def canonicalize_def)
    have b: "first_match False (rplus dig) (Some 46, fp @ [], ?c) = Some (Some (last fp), [], ?c)"
      using fp False by (simp only: One_nat_def, intro first_run_plus) (simp_all add: variants_digit)
    have "first_match False (RSeq (lit ''.'') (rplus dig)) (Some (last ip), 46 # fp @ [], ?c)
          = Some (Some (last fp), [], ?c)"
      using a b by (rule first_seq)
    then have "first_match False (ropt (RSeq (lit ''.'') (rplus dig))) (Some (last ip), 46 # fp @ [], ?c)
          = Some (Some (last fp), [], ?c)"
      by (rule first_opt) simp
    then show ?thesis using False by (simp add: frac_part_def del: matches.simps)
  qed
  have "first_match False (RSeq (rplus dig) (ropt (RSeq (lit ''.'') (rplus dig)))) (None, ?num, ?c)
        = Some (Some (last ?num), [], ?c)"
    using 2 3 by (rule first_seq)
  with 1 have "first_match False (snd re_number) (None, ?num, ?c) = Some (Some (last ?num), [], ?c)"
    unfolding re_number_def snd_conv seq.simps by (rule first_seq)
  then have "search False (snd re_number) None ?num 0 = Some (0, take (length ?num - length ([]::jsstring)) ?num, ?c)"
    by (rule search_hit)
  then have "js_match re_number ?num = Some (0, ?num, ?c)"
    by (simp add: js_match_def re_number_def)
  then show ?thesis unfolding toFloatSafe_def by (simp only: f option.case prod.case)
qed

text \<open>
  A pattern of \<^verbatim>\<open>parseTHC\<close> on a text that shows a value after the first place where its
  label can start; and on a text where its label can start nowhere, or that has no percent
  sign.
\<close>

lemma thc_read:
  assumes flat: "flat = pre @ L @ gap @ num @ sp @ U @ post"
    and fail: "\<forall>i < length pre. \<forall>q. matches True lbl (q, drop i flat, \<lambda>_. None) = []"
    and hit: "first_match True lbl (prev_after None pre, L @ gap @ num @ sp @ U @ post, \<lambda>_. None)
              = Some (p1, gap @ num @ sp @ U @ post, \<lambda>_. None)"
    and gap: "\<forall>x \<in> set gap. \<not> in_ranges digit x" "length gap \<le> 40"
    and num: "decimal n num"
    and sp: "\<forall>x \<in> set sp. in_ranges ws x"
    and U: "U \<noteq> []" "\<not> in_ranges digit (hd U)" "hd U \<noteq> 46" "hd U \<noteq> 44"
    and unit: "\<And>p c. first_match True u (p, sp @ U @ post, c) = Some (pu, post, c)"
  shows "firstNumber (thc_re lbl n u) flat = Some (parseFloat num)"
proof -
  let ?c = "\<lambda>_::nat. None :: jsstring option"
  let ?R = "RSeq lbl (RSeq (thc_value n) u)"
  from num obtain ip fp where n: "num = ip @ frac_part fp" and ip: "ip \<noteq> []" "length ip \<le> n"
    "\<forall>x \<in> set ip. in_ranges digit x" and fp: "\<forall>x \<in> set fp. in_ranges digit x" "length fp \<le> 2"
    by (rule decimalE)
  obtain t ts where t: "sp @ U @ post = t # ts" and t': "\<not> in_ranges digit t" "t \<noteq> 46" "t \<noteq> 44"
  proof (cases sp)
    case Nil
    then show thesis using U that [of "hd U" "tl U @ post"] by (cases U) auto
  next
    case (Cons a as)
    then show thesis using sp ws_plain [of a] that [of a "as @ U @ post"] by auto
  qed
  have v: "first_match True (thc_value n) (p1, gap @ num @ sp @ U @ post, ?c)
           = Some (Some (last num), sp @ U @ post, ?c(1 := Some num))"
    using first_value [OF gap ip fp t', of p1 ts ?c] by (simp add: n t)
  have "first_match True (RSeq (thc_value n) u) (p1, gap @ num @ sp @ U @ post, ?c)
        = Some (pu, post, ?c(1 := Some num))"
    using v unit by (rule first_seq)
  with hit have "first_match True ?R (prev_after None pre, L @ gap @ num @ sp @ U @ post, ?c)
        = Some (pu, post, ?c(1 := Some num))"
    by (rule first_seq)
  then have h: "search True ?R (prev_after None pre) (L @ gap @ num @ sp @ U @ post) (0 + length pre)
        = Some (0 + length pre,
                take (length (L @ gap @ num @ sp @ U @ post) - length post) (L @ gap @ num @ sp @ U @ post),
                ?c(1 := Some num))"
    by (rule search_hit)
  have "\<forall>i < length pre. \<forall>q. matches True ?R (q, drop i (pre @ L @ gap @ num @ sp @ U @ post), ?c) = []"
    using fail by (simp add: flat)
  then have "search True ?R None (pre @ L @ gap @ num @ sp @ U @ post) 0
      = search True ?R (prev_after None pre) (L @ gap @ num @ sp @ U @ post) (0 + length pre)"
    by (rule search_skip)
  with h have "\<exists>m. js_match (thc_re lbl n u) flat = Some (length pre, m, ?c(1 := Some num))"
    by (simp add: js_match_def thc_re_def flat del: matches.simps search.simps)
  then have "firstNumber (thc_re lbl n u) flat = toFloatSafe (Some num)"
    by (auto simp add: firstNumber_def)
  also have "\<dots> = Some (parseFloat num)"
    unfolding n using ip(1,3) fp(1) by (rule toFloatSafe_decimal)
  finally show ?thesis .
qed

lemma thc_absent:
  assumes "\<forall>i \<le> length flat. \<forall>q. matches True lbl (q, drop i flat, \<lambda>_. None) = []"
  shows "firstNumber (thc_re lbl n u) flat = None"
proof -
  have "\<forall>i \<le> length flat. \<forall>q. matches True (RSeq lbl (RSeq (thc_value n) u)) (q, drop i flat, \<lambda>_. None) = []"
    using assms by simp
  then have "search True (RSeq lbl (RSeq (thc_value n) u)) None flat 0 = None"
    by (rule search_none)
  then show ?thesis by (simp add: firstNumber_def js_match_def thc_re_def del: matches.simps search.simps)
qed

lemma pct_absent:
  assumes "37 \<notin> set flat"
  shows "firstNumber (thc_re lbl n pct_unit) flat = None"
proof -
  have 0: "matches True (lit ''%'') st = []" if "37 \<notin> set (fst (snd st))" for st
    using that chr_absent [of 37 "fst (snd st)" "fst st" "snd (snd st)"] by simp
  have 1: "matches True pct_unit st = []" if "37 \<notin> set (fst (snd st))" for st
    unfolding pct_unit_def seq.simps using 0 that by (rule seq_absent)
  have 2: "matches True (RSeq (thc_value n) pct_unit) st = []" if "37 \<notin> set (fst (snd st))" for st
    using 1 that by (rule seq_absent)
  have 3: "matches True (RSeq lbl (RSeq (thc_value n) pct_unit)) st = []" if "37 \<notin> set (fst (snd st))" for st
    using 2 that by (rule seq_absent)
  have "\<forall>i \<le> length flat. \<forall>q. matches True (RSeq lbl (RSeq (thc_value n) pct_unit)) (q, drop i flat, \<lambda>_. None) = []"
  proof (intro allI impI)
    fix i q
    have "37 \<notin> set (drop i flat)" using assms by (auto dest: in_set_dropD)
    then show "matches True (RSeq lbl (RSeq (thc_value n) pct_unit)) (q, drop i flat, \<lambda>_. None) = []"
      by (intro 3) simp
  qed
  then have "search True (RSeq lbl (RSeq (thc_value n) pct_unit)) None flat 0 = None"
    by (rule search_none)
  then show ?thesis by (simp add: firstNumber_def js_match_def thc_re_def del: matches.simps search.simps)
qed

lemma first_atD: "first_at w n s \<Longrightarrow> i < n \<Longrightarrow> \<not> ci_starts (drop i s) w"
  by (simp add: first_at_def list_all_iff)

lemma lacksD: "lacks w s \<Longrightarrow> i \<le> length s \<Longrightarrow> \<not> ci_starts (drop i s) w"
  by (simp add: lacks_def first_atD)

lemma windowD:
  assumes "window gap"
  obtains g gs where "gap = g # gs" "\<not> in_ranges wordc g"
    "\<forall>x \<in> set gap. \<not> in_ranges digit x" "length gap \<le> 40"
  using assms by (cases gap) (auto simp: window_def list_all_iff)

lemma labelled_read:
  assumes lab: "labelled T L n U flat (pre, gap, num, sp, post)"
    and fail: "\<And>s q. \<not> ci_starts s (str T) \<Longrightarrow> matches True lbl (q, s, \<lambda>_. None) = []"
    and hit: "\<And>q g gs. \<not> is_word q \<Longrightarrow> \<not> in_ranges wordc g \<Longrightarrow>
                first_match True lbl (q, str L @ g # gs, \<lambda>_. None) = Some (pl, g # gs, \<lambda>_. None)"
    and U: "str U \<noteq> []" "\<not> in_ranges digit (hd (str U))" "hd (str U) \<noteq> 46" "hd (str U) \<noteq> 44"
    and unit: "\<And>p c. first_match True u (p, sp @ str U @ post, c) = Some (pu, post, c)"
  shows "firstNumber (thc_re lbl n u) flat = Some (parseFloat num)"
proof -
  from lab have flat: "flat = pre @ str L @ gap @ num @ sp @ str U @ post"
    and first: "first_at (str T) (length pre) flat" and bnd: "\<not> is_word (prev_after None pre)"
    and w: "window gap" and d: "decimal n num" and b: "blanks sp"
    unfolding labelled_def prod.case by blast+
  from w obtain g gs where gap: "gap = g # gs" "\<not> in_ranges wordc g"
    "\<forall>x \<in> set gap. \<not> in_ranges digit x" "length gap \<le> 40" by (rule windowD)
  have f: "\<forall>i < length pre. \<forall>q. matches True lbl (q, drop i flat, \<lambda>_. None) = []"
    using first by (auto dest: first_atD intro!: fail)
  have h: "first_match True lbl (prev_after None pre, str L @ gap @ num @ sp @ str U @ post, \<lambda>_. None)
        = Some (pl, gap @ num @ sp @ str U @ post, \<lambda>_. None)"
    using hit [OF bnd gap(2), of "gs @ num @ sp @ str U @ post"] by (simp add: gap(1))
  have s: "\<forall>x \<in> set sp. in_ranges ws x" using b by (simp add: blanks_def list_all_iff)
  show ?thesis using flat f h gap(3,4) d s U unit by (rule thc_read)
qed

text \<open>The labels.\<close>

lemma lbl_total_fails:
  "\<not> ci_starts s (str ''Total'') \<Longrightarrow> matches True lbl_total (q, s, c) = []"
proof -
  assume "\<not> ci_starts s (str ''Total'')"
  then have "matches True (lit ''Total'') (q, s, c) = []" by (rule matches_lit_fail)
  then show ?thesis by (simp add: lbl_total_def del: lit.simps)
qed

lemma lbl_thc_a_fails:
  "\<not> ci_starts s (str ''THC'') \<Longrightarrow> matches True lbl_thc_a (q, s, c) = []"
proof -
  assume "\<not> ci_starts s (str ''THC'')"
  then have "matches True (lit ''THC'') (q, s, c) = []" by (rule matches_lit_fail)
  then show ?thesis by (simp add: lbl_thc_a_def del: lit.simps)
qed

lemma lbl_thca_fails:
  "\<not> ci_starts s (str ''THC'') \<Longrightarrow> matches True lbl_thca (q, s, c) = []"
proof -
  assume a: "\<not> ci_starts s (str ''THC'')"
  have "\<not> ci_starts s (str ''THC'' @ str ''a'')"
    using a by (blast dest: ci_starts_prefix)
  then have "\<not> ci_starts s (str ''THCa'')" by (simp add: str_def)
  then have "matches True (lit ''THCa'') (q, s, c) = []" by (rule matches_lit_fail)
  then show ?thesis by (simp add: lbl_thca_def del: lit.simps)
qed

lemma lbl_d9_fails:
  "\<not> ci_starts s (str ''D'') \<Longrightarrow> matches True lbl_d9 (q, s, c) = []"
proof -
  assume "\<not> ci_starts s (str ''D'')"
  then have "matches True (lit ''D'') (q, s, c) = []" by (rule matches_lit_fail)
  then show ?thesis by (simp add: lbl_d9_def del: lit.simps)
qed

lemma lbl_delta9_thc_fails:
  "\<not> ci_starts s (str ''D'') \<Longrightarrow> \<not> ci_starts s [Delta] \<Longrightarrow> matches True lbl_delta9_thc (q, s, c) = []"
proof -
  assume a: "\<not> ci_starts s (str ''D'')" and b: "\<not> ci_starts s [Delta]"
  have "\<not> ci_starts s (str ''D'' @ str ''elta'')"
    using a by (blast dest: ci_starts_prefix)
  then have "\<not> ci_starts s (str ''Delta'')" by (simp add: str_def)
  then have 1: "matches True (lit ''Delta'') (q, s, c) = []" by (rule matches_lit_fail)
  have 2: "matches True (RChr Delta) (q, s, c) = []" using b by (cases s) auto
  show ?thesis using 1 2 by (simp add: lbl_delta9_thc_def del: lit.simps)
qed

lemma total_label:
  assumes "\<not> is_word q" and "\<not> in_ranges wordc g"
  shows "matches True lbl_total (q, str ''Total THC'' @ g # gs, c) = [(Some 67, g # gs, c)]"
  using assms by (simp add: lbl_total_def str_defs)

lemma thc_a_label:
  assumes "\<not> is_word q" and "\<not> in_ranges wordc g"
  shows "first_match True lbl_thc_a (q, str ''THCA'' @ g # gs, c) = Some (Some 65, g # gs, c)"
  using assms by (simp add: first_match_def lbl_thc_a_def str_defs)

lemma delta9_thc_label:
  assumes "\<not> is_word q" and "\<not> in_ranges wordc g"
  shows "first_match True lbl_delta9_thc (q, str ''Delta-9 THC'' @ g # gs, c) = Some (Some 67, g # gs, c)"
  using assms by (simp add: first_match_def lbl_delta9_thc_def str_defs)


lemma total_mg_read:
  assumes "labelled ''Total'' ''Total THC'' 3 ''mg/g'' flat (pre, gap, num, sp, post)"
  shows "firstNumber re_total_mg flat = Some (parseFloat num)"
  unfolding re_total_mg_def using assms
proof (rule labelled_read)
  show "first_match True lbl_total (q, str ''Total THC'' @ g # gs, \<lambda>_. None) = Some (Some 67, g # gs, \<lambda>_. None)"
    if "\<not> is_word q" "\<not> in_ranges wordc g" for q g gs
    using total_label [OF that] by (simp add: first_match_def del: matches.simps)
  show "first_match True mg_unit (p, sp @ str ''mg/g'' @ post, c) = Some (Some 103, post, c)" for p c
    using first_mg_unit [of sp] assms by (simp add: labelled_def blanks_def list_all_iff)
qed (simp_all add: lbl_total_fails str_def in_ranges_def digit_def)

lemma thca_percent_read:
  assumes "labelled ''THC'' ''THCA'' 2 ''%'' flat (pre, gap, num, sp, post)"
  shows "firstNumber re_thc_a_pct flat = Some (parseFloat num)"
  unfolding re_thc_a_pct_def using assms
proof (rule labelled_read)
  show "first_match True lbl_thc_a (q, str ''THCA'' @ g # gs, \<lambda>_. None) = Some (Some 65, g # gs, \<lambda>_. None)"
    if "\<not> is_word q" "\<not> in_ranges wordc g" for q g gs
    using that by (rule thc_a_label)
  show "first_match True pct_unit (p, sp @ str ''%'' @ post, c) = Some (Some 37, post, c)" for p c
    using first_pct_unit [of sp] assms by (simp add: labelled_def blanks_def list_all_iff str_def)
qed (simp_all add: lbl_thc_a_fails str_def in_ranges_def digit_def)

lemma thca_mg_read:
  assumes "labelled ''THC'' ''THCA'' 3 ''mg/g'' flat (pre, gap, num, sp, post)"
  shows "firstNumber re_thc_a_mg flat = Some (parseFloat num)"
  unfolding re_thc_a_mg_def using assms
proof (rule labelled_read)
  show "first_match True lbl_thc_a (q, str ''THCA'' @ g # gs, \<lambda>_. None) = Some (Some 65, g # gs, \<lambda>_. None)"
    if "\<not> is_word q" "\<not> in_ranges wordc g" for q g gs
    using that by (rule thc_a_label)
  show "first_match True mg_unit (p, sp @ str ''mg/g'' @ post, c) = Some (Some 103, post, c)" for p c
    using first_mg_unit [of sp] assms by (simp add: labelled_def blanks_def list_all_iff)
qed (simp_all add: lbl_thc_a_fails str_def in_ranges_def digit_def)

lemma delta9_percent_read:
  assumes "labelled ''D'' ''Delta-9 THC'' 2 ''%'' flat (pre, gap, num, sp, post)"
    and "first_at [Delta] (length pre) flat"
  shows "firstNumber re_delta9_pct flat = Some (parseFloat num)"
proof -
  let ?c = "\<lambda>_::nat. None :: jsstring option"
  from assms(1) have flat: "flat = pre @ str ''Delta-9 THC'' @ gap @ num @ sp @ str ''%'' @ post"
    and first: "first_at (str ''D'') (length pre) flat" and bnd: "\<not> is_word (prev_after None pre)"
    and w: "window gap" and d: "decimal 2 num" and b: "blanks sp"
    unfolding labelled_def prod.case by blast+
  from w obtain g gs where gap: "gap = g # gs" "\<not> in_ranges wordc g"
    "\<forall>x \<in> set gap. \<not> in_ranges digit x" "length gap \<le> 40" by (rule windowD)
  have f: "\<forall>i < length pre. \<forall>q. matches True lbl_delta9_thc (q, drop i flat, ?c) = []"
    using first assms(2) by (auto dest: first_atD intro!: lbl_delta9_thc_fails)
  have h: "first_match True lbl_delta9_thc (prev_after None pre, str ''Delta-9 THC'' @ gap @ num @ sp @ str ''%'' @ post, ?c)
        = Some (Some 67, gap @ num @ sp @ str ''%'' @ post, ?c)"
    using delta9_thc_label [OF bnd gap(2), of "gs @ num @ sp @ str ''%'' @ post" ?c] by (simp add: gap(1))
  have s: "\<forall>x \<in> set sp. in_ranges ws x" using b by (simp add: blanks_def list_all_iff)
  have unit: "\<And>p c. first_match True pct_unit (p, sp @ str ''%'' @ post, c) = Some (Some 37, post, c)"
    using first_pct_unit [of sp] s by (simp add: str_def)
  show ?thesis
    unfolding re_delta9_pct_def
    using flat f h gap(3,4) d s _ _ _ _ unit
    by (rule thc_read) (simp_all add: str_def in_ranges_def digit_def)
qed

lemma total_absent:
  assumes "lacks (str ''Total'') flat"
  shows "firstNumber re_total_pct flat = None" "firstNumber re_total_mg flat = None"
  unfolding re_total_pct_def re_total_mg_def
  using assms by (auto intro!: thc_absent lbl_total_fails dest: lacksD)

lemma thca_absent:
  assumes "lacks (str ''THC'') flat"
  shows "locate_thca flat = None"
proof -
  have "firstNumber (thc_re lbl_thc_a n u) flat = None" "firstNumber (thc_re lbl_thca n u) flat = None" for n u
    using assms by (auto intro!: thc_absent lbl_thc_a_fails lbl_thca_fails dest: lacksD)
  then show ?thesis
    by (simp add: locate_thca_def nullish_def re_thc_a_pct_def re_thca_pct_def re_thc_a_mg_def
        re_thca_mg_def)
qed

lemma d9_absent:
  assumes "lacks (str ''D'') flat" and "lacks [Delta] flat"
  shows "locate_d9 flat = None"
proof -
  have "firstNumber (thc_re lbl_delta9_thc n u) flat = None" "firstNumber (thc_re lbl_d9 n u) flat = None" for n u
    using assms by (auto intro!: thc_absent lbl_delta9_thc_fails lbl_d9_fails dest: lacksD)
  then show ?thesis
    by (simp add: locate_d9_def nullish_def re_delta9_pct_def re_d9_pct_def re_delta9_mg_def
        re_d9_mg_def)
qed

section \<open>Properties of parseTHC\<close>

lemma hundredths_nearest: "\<bar>of_int (hundredths x) / 100 - x\<bar> \<le> 1 / 200"
proof (cases "x < 0")
  case True
  define f where "f = \<lfloor>- x * 100 + 1 / 2\<rfloor>"
  have lo: "of_int f \<le> - x * 100 + 1 / 2" unfolding f_def by (rule of_int_floor_le)
  have hi: "- x * 100 + 1 / 2 < of_int f + 1" unfolding f_def by linarith
  have "hundredths x = - f" using True by (simp add: hundredths_def f_def)
  then have "of_int (hundredths x) / 100 - x = - (of_int f / 100) - x" by simp
  moreover have "- (of_int f / 100) - x \<le> 1 / 200" "- (1 / 200) \<le> - (of_int f / 100) - x"
    using lo hi by (simp_all add: field_simps)
  ultimately show ?thesis by linarith
next
  case False
  define f where "f = \<lfloor>x * 100 + 1 / 2\<rfloor>"
  have lo: "of_int f \<le> x * 100 + 1 / 2" unfolding f_def by (rule of_int_floor_le)
  have hi: "x * 100 + 1 / 2 < of_int f + 1" unfolding f_def by linarith
  have "hundredths x = f" using False by (simp add: hundredths_def f_def)
  then have "of_int (hundredths x) / 100 - x = of_int f / 100 - x" by simp
  moreover have "of_int f / 100 - x \<le> 1 / 200" "- (1 / 200) \<le> of_int f / 100 - x"
    using lo hi by (simp_all add: field_simps)
  ultimately show ?thesis by linarith
qed







text \<open>
  The second step: when the same label is followed by a value in mg/g and the text has no
  percent sign, the result is that value divided by 10.
\<close>

lemma parseTHC_direct_mg:
  assumes "labelled ''Total'' ''Total THC'' 3 ''mg/g'' (normalizeForTHC text) (pre, gap, num, sp, post)"
    and "37 \<notin> set (normalizeForTHC text)"
  shows "parseTHC text = \<lparr>totalPercent = Some (ddiv (parseFloat num) 10)\<rparr>"
  using total_mg_read [OF assms(1)] pct_absent [OF assms(2), of lbl_total 2]
  by (simp add: parseTHC_def re_total_pct_def mgPerGToPercent_def)

text \<open>
  C2, as the code has it. When neither direct read finds a number and a THCA or a Delta-9
  value is found (the percent patterns first, then the mg/g patterns with the value
  divided by 10), the result is \<^verbatim>\<open>+x.toFixed(2)\<close> for the double
  \<open>x = 0.877 * thca + d9\<close>, a missing value read as 0: the double nearest to \<open>n / 100\<close>,
  where \<open>n / 100\<close> is the multiple of 1/100 nearest to \<open>x\<close>. The product and the sum are
  rounded to doubles, and so is 0.877.
\<close>

theorem parseTHC_computed:
  assumes "firstNumber re_total_pct (normalizeForTHC text) = None"
    and "firstNumber re_total_mg (normalizeForTHC text) = None"
    and "thca = first_of
           [firstNumber re_thc_a_pct (normalizeForTHC text),
            firstNumber re_thca_pct (normalizeForTHC text),
            map_option (\<lambda>mg. ddiv mg 10) (firstNumber re_thc_a_mg (normalizeForTHC text)),
            map_option (\<lambda>mg. ddiv mg 10) (firstNumber re_thca_mg (normalizeForTHC text))]"
    and "d9 = first_of
           [firstNumber re_delta9_pct (normalizeForTHC text),
            firstNumber re_d9_pct (normalizeForTHC text),
            map_option (\<lambda>mg. ddiv mg 10) (firstNumber re_delta9_mg (normalizeForTHC text)),
            map_option (\<lambda>mg. ddiv mg 10) (firstNumber re_d9_mg (normalizeForTHC text))]"
    and "thca \<noteq> None \<or> d9 \<noteq> None"
    and "x = dadd (dmul (fl (877 / 1000)) (case thca of None \<Rightarrow> 0 | Some v \<Rightarrow> v))
                  (case d9 of None \<Rightarrow> 0 | Some v \<Rightarrow> v)"
  shows "parseTHC text = \<lparr>totalPercent = Some (fl (of_int (hundredths x) / 100))\<rparr>
         \<and> \<bar>of_int (hundredths x) / 100 - x\<bar> \<le> 1 / 200"
proof -
  let ?flat = "normalizeForTHC text"
  have a: "locate_thca ?flat = thca"
    unfolding assms(3) locate_thca_def Let_def nullish_def mgPerGToPercent_def
    by (simp split: option.splits)
  have d: "locate_d9 ?flat = d9"
    unfolding assms(4) locate_d9_def Let_def nullish_def mgPerGToPercent_def
    by (simp split: option.splits)
  have "parseTHC text = \<lparr>totalPercent = Some (toFixed2 x)\<rparr>"
    using assms(1,2,5) by (simp add: parseTHC_def Let_def a d or0_def assms(6))
  then show ?thesis using hundredths_nearest [of x] by (simp add: toFixed2_def)
qed

text \<open>
  Three texts: both values in percent (17.84, the example of the specification); THCA
  alone, in mg/g (250 mg/g is 25%, and 21.925 gives 21.93); Delta-9 alone, in mg/g and
  found by the second of its patterns (0.3).
\<close>

lemma reads_computed_example:
  "normalizeForTHC computed_example = computed_example"
  "firstNumber re_total_pct computed_example = None"
  "firstNumber re_total_mg computed_example = None"
  "firstNumber re_thc_a_pct computed_example = Some 20"
  "firstNumber re_delta9_pct computed_example = Some (fl (3 / 10))"
  by (simp_all add: computed_example_def str_defs util_defs parser_defs)

lemma reads_thca_mg_example:
  "normalizeForTHC thca_mg_example = thca_mg_example"
  "firstNumber re_total_pct thca_mg_example = None"
  "firstNumber re_total_mg thca_mg_example = None"
  "firstNumber re_thc_a_pct thca_mg_example = None"
  "firstNumber re_thca_pct thca_mg_example = None"
  "firstNumber re_thc_a_mg thca_mg_example = Some 250"
  "firstNumber re_delta9_pct thca_mg_example = None"
  "firstNumber re_d9_pct thca_mg_example = None"
  "firstNumber re_delta9_mg thca_mg_example = None"
  "firstNumber re_d9_mg thca_mg_example = None"
  by (simp_all add: thca_mg_example_def str_defs util_defs parser_defs)

lemma reads_d9_mg_example:
  "normalizeForTHC d9_mg_example = d9_mg_example"
  "firstNumber re_total_pct d9_mg_example = None"
  "firstNumber re_total_mg d9_mg_example = None"
  "firstNumber re_thc_a_pct d9_mg_example = None"
  "firstNumber re_thca_pct d9_mg_example = None"
  "firstNumber re_thc_a_mg d9_mg_example = None"
  "firstNumber re_thca_mg d9_mg_example = None"
  "firstNumber re_delta9_pct d9_mg_example = None"
  "firstNumber re_d9_pct d9_mg_example = None"
  "firstNumber re_delta9_mg d9_mg_example = None"
  "firstNumber re_d9_mg d9_mg_example = Some 3"
  by (simp_all add: d9_mg_example_def str_defs util_defs parser_defs)

lemma sums_examples:
  "dadd (dmul (fl (877 / 1000)) 20) (fl (3 / 10)) = fl (446 / 25)"
  "hundredths (fl (446 / 25)) = 1784"
  "ddiv 250 10 = 25"
  "dadd (dmul (fl (877 / 1000)) 25) 0 = fl (877 / 40)"
  "hundredths (fl (877 / 40)) = 2193"
  "ddiv 3 10 = fl (3 / 10)"
  "dadd (dmul (fl (877 / 1000)) 0) (fl (3 / 10)) = fl (3 / 10)"
  "hundredths (fl (3 / 10)) = 30"
  by (simp_all add: hundredths_def num_defs)

theorem parseTHC_computed_witness:
  "firstNumber re_total_pct (normalizeForTHC computed_example) = None
   \<and> firstNumber re_total_mg (normalizeForTHC computed_example) = None
   \<and> firstNumber re_thc_a_pct (normalizeForTHC computed_example) = Some 20
   \<and> firstNumber re_delta9_pct (normalizeForTHC computed_example) = Some (fl (3 / 10))
   \<and> parseTHC computed_example = \<lparr>totalPercent = Some (fl (1784 / 100))\<rparr>
   \<and> firstNumber re_total_pct (normalizeForTHC thca_mg_example) = None
   \<and> firstNumber re_total_mg (normalizeForTHC thca_mg_example) = None
   \<and> firstNumber re_thc_a_pct (normalizeForTHC thca_mg_example) = None
   \<and> firstNumber re_thca_pct (normalizeForTHC thca_mg_example) = None
   \<and> firstNumber re_thc_a_mg (normalizeForTHC thca_mg_example) = Some 250
   \<and> parseTHC thca_mg_example = \<lparr>totalPercent = Some (fl (2193 / 100))\<rparr>
   \<and> firstNumber re_total_pct (normalizeForTHC d9_mg_example) = None
   \<and> firstNumber re_total_mg (normalizeForTHC d9_mg_example) = None
   \<and> firstNumber re_delta9_pct (normalizeForTHC d9_mg_example) = None
   \<and> firstNumber re_d9_pct (normalizeForTHC d9_mg_example) = None
   \<and> firstNumber re_delta9_mg (normalizeForTHC d9_mg_example) = None
   \<and> firstNumber re_d9_mg (normalizeForTHC d9_mg_example) = Some 3
   \<and> parseTHC d9_mg_example = \<lparr>totalPercent = Some (fl (30 / 100))\<rparr>"
proof -
  have 1: "parseTHC computed_example = \<lparr>totalPercent = Some (fl (1784 / 100))\<rparr>"
    using parseTHC_computed [of computed_example "Some 20" "Some (fl (3 / 10))" "fl (446 / 25)"]
    by (simp add: reads_computed_example sums_examples)
  have 2: "parseTHC thca_mg_example = \<lparr>totalPercent = Some (fl (2193 / 100))\<rparr>"
    using parseTHC_computed [of thca_mg_example "Some 25" None "fl (877 / 40)"]
    by (simp add: reads_thca_mg_example sums_examples)
  have 3: "parseTHC d9_mg_example = \<lparr>totalPercent = Some (fl (30 / 100))\<rparr>"
    using parseTHC_computed [of d9_mg_example None "Some (fl (3 / 10))" "fl (3 / 10)"]
    by (simp add: reads_d9_mg_example sums_examples)
  show ?thesis
    using 1 2 3
    by (simp only: reads_computed_example reads_thca_mg_example reads_d9_mg_example simp_thms)
qed

text \<open>
  C2, as stated, fails where the exact value of \<open>0.877 * thca + d9\<close> is halfway between
  two multiples of 1/100. For THCA = 15% the exact value is 13.155 and \<open>round(13.155, 2)\<close>
  is 13.16; the double \<open>0.877 * 15\<close> lies below 13.155 and the result is 13.15.
\<close>

theorem parseTHC_computed_counterexample:
  "firstNumber re_total_pct (normalizeForTHC thca_15_example) = None
   \<and> firstNumber re_total_mg (normalizeForTHC thca_15_example) = None
   \<and> locate_thca (normalizeForTHC thca_15_example) = Some 15
   \<and> locate_d9 (normalizeForTHC thca_15_example) = None
   \<and> parseTHC thca_15_example = \<lparr>totalPercent = Some (fl (1315 / 100))\<rparr>
   \<and> spec_round2 (877 / 1000 * 15 + 0) = 1316 / 100
   \<and> fl (1315 / 100) \<noteq> fl (1316 / 100)"
  by (simp add: thca_15_example_def spec_round2_def str_defs util_defs parser_defs)

text \<open>
  A tie of the exact value goes either way: for THCA = 25% the exact value is 21.925, the
  double lies above it and the result is 21.93.
\<close>

lemma parseTHC_tie_up:
  "parseTHC thca_25_example = \<lparr>totalPercent = Some (fl (2193 / 100))\<rparr>
   \<and> 877 / 1000 * 25 = (2192 / 100 + 2193 / 100) / (2 :: rat)"
  by (simp add: thca_25_example_def str_defs util_defs parser_defs)

text \<open>
  From the text to the result, for three shapes of text without the word "Total": THCA
  alone in percent, THCA alone in mg/g, and THCA and Delta-9 in percent. \<open>Delta\<close> is the
  Greek letter.
\<close>

lemma parseTHC_thca_only:
  assumes "labelled ''THC'' ''THCA'' 2 ''%'' (normalizeForTHC text) (pre, gap, num, sp, post)"
    and "lacks (str ''Total'') (normalizeForTHC text)"
    and "lacks (str ''D'') (normalizeForTHC text)"
    and "lacks [Delta] (normalizeForTHC text)"
  shows "parseTHC text = \<lparr>totalPercent = Some (toFixed2 (dadd (dmul (fl (877 / 1000)) (parseFloat num)) 0))\<rparr>"
proof -
  have "locate_thca (normalizeForTHC text) = Some (parseFloat num)"
    using thca_percent_read [OF assms(1)] by (simp add: locate_thca_def nullish_def)
  then show ?thesis
    using total_absent [OF assms(2)] d9_absent [OF assms(3,4)]
    by (simp add: parseTHC_def or0_def)
qed

lemma parseTHC_thca_mg_only:
  assumes "labelled ''THC'' ''THCA'' 3 ''mg/g'' (normalizeForTHC text) (pre, gap, num, sp, post)"
    and "37 \<notin> set (normalizeForTHC text)"
    and "lacks (str ''Total'') (normalizeForTHC text)"
    and "lacks (str ''D'') (normalizeForTHC text)"
    and "lacks [Delta] (normalizeForTHC text)"
  shows "parseTHC text
         = \<lparr>totalPercent = Some (toFixed2 (dadd (dmul (fl (877 / 1000)) (ddiv (parseFloat num) 10)) 0))\<rparr>"
proof -
  have "locate_thca (normalizeForTHC text) = Some (ddiv (parseFloat num) 10)"
    using thca_mg_read [OF assms(1)] pct_absent [OF assms(2), of lbl_thc_a 2]
      pct_absent [OF assms(2), of lbl_thca 2]
    by (simp add: locate_thca_def nullish_def re_thc_a_pct_def re_thca_pct_def mgPerGToPercent_def)
  then show ?thesis
    using total_absent [OF assms(3)] d9_absent [OF assms(4,5)]
    by (simp add: parseTHC_def or0_def)
qed

lemma parseTHC_thca_delta9:
  assumes "labelled ''THC'' ''THCA'' 2 ''%'' (normalizeForTHC text) (pre, gap, num, sp, post)"
    and "labelled ''D'' ''Delta-9 THC'' 2 ''%'' (normalizeForTHC text) (pre', gap', num', sp', post')"
    and "first_at [Delta] (length pre') (normalizeForTHC text)"
    and "lacks (str ''Total'') (normalizeForTHC text)"
  shows "parseTHC text
         = \<lparr>totalPercent = Some (toFixed2 (dadd (dmul (fl (877 / 1000)) (parseFloat num)) (parseFloat num')))\<rparr>"
proof -
  have "locate_thca (normalizeForTHC text) = Some (parseFloat num)"
    using thca_percent_read [OF assms(1)] by (simp add: locate_thca_def nullish_def)
  moreover have "locate_d9 (normalizeForTHC text) = Some (parseFloat num')"
    using delta9_percent_read [OF assms(2,3)] by (simp add: locate_d9_def nullish_def)
  ultimately show ?thesis
    using total_absent [OF assms(4)] by (simp add: parseTHC_def or0_def)
qed

section \<open>The empty document\<close>

text \<open>
  C3. On the empty text every parser returns, and the record is empty: no strain, no
  type, no dominant terpene, no other terpenes and no THC percentage.
\<close>

theorem parseCoa_empty:
  "parseCoa url [] = \<lparr>sourceUrl = url, strain = None, type = None, dominantTerpene = None,
     otherTerpenes = [], thc = \<lparr>totalPercent = None\<rparr>\<rparr>"
  by (simp add: str_defs util_defs parser_defs)

section \<open>Canonical names\<close>

text \<open>
  C4. Canonicalization is not idempotent on two kinds of keys of \<open>SYN\<close>. The key
  \<^verbatim>\<open>caryophyllene oxide\<close> maps to \<^verbatim>\<open>caryophyllene-oxide\<close>, which \<^verbatim>\<open>canonTerp\<close> maps
  to \<^verbatim>\<open>caryophyllene\<close>, the earlier entry of \<open>KNOWN_TERPENES\<close> that it contains. The key
  beta-pinene written with the Greek letter maps to \<^verbatim>\<open>beta-pinene\<close>, which \<^verbatim>\<open>canonTerp\<close>
  maps to \<^verbatim>\<open>alpha-pinene\<close>: the pattern \<^verbatim>\<open>a[-\s]?pinene\<close> matches inside
  \<^verbatim>\<open>beta-pinene\<close>.
\<close>

theorem canonTerp_not_idempotent:
  "map_of SYN (str ''caryophyllene oxide'') = Some (str ''caryophyllene-oxide'')
   \<and> canonTerp (str ''caryophyllene oxide'') = Some (TStr (str ''caryophyllene-oxide''))
   \<and> canonTerp (str ''caryophyllene-oxide'') = Some (TStr (str ''caryophyllene''))
   \<and> map_of SYN (beta # str ''-pinene'') = Some (str ''beta-pinene'')
   \<and> canonTerp (beta # str ''-pinene'') = Some (TStr (str ''beta-pinene''))
   \<and> canonTerp (str ''beta-pinene'') = Some (TStr (str ''alpha-pinene''))"
  by (simp add: str_defs util_defs)

text \<open>The sixteen keys of \<open>SYN\<close> in the order of the source: all others are idempotent.\<close>

lemma canonTerp_idempotent_table:
  "map (\<lambda>(k, v). idempotent_on k) SYN =
     [True, True, True, False, True, True, True, True, True, True, False, False,
      True, True, True, True]"
  by (simp add: idempotent_on_def str_defs util_defs)

section \<open>The terpene ranking\<close>

text \<open>
  C5. A terpene whose only percent is zero is ranked: \<^verbatim>\<open>collectTerpenesAsPercent\<close>
  keeps the row and \<^verbatim>\<open>pickTopTerpenes\<close> returns its name. (The \<^verbatim>\<open>pickTopTerpenes\<close> of
  the server filters its pairs by \<^verbatim>\<open>p.pct > 0\<close> and drops the pair; the one of the scraper
  does not.)
\<close>

theorem pickTopTerpenes_keeps_zero:
  "collectTerpenesAsPercent (str ''Myrcene 0%'') = [\<lparr>name = TStr (str ''myrcene''), percent = 0\<rparr>]
   \<and> pickTopTerpenes (str ''Myrcene 0%'') 3 = [TStr (str ''myrcene'')]
   \<and> pickTopTerpenes_server [(str ''myrcene'', Fin 0)] 3 = []"
  by (simp add: str_defs util_defs parser_defs pickTopTerpenes_server_def fixFinite.simps)

text \<open>
  The rest of the contract holds: the names are those of the collected rows (with the
  percent of \<^verbatim>\<open>pinene\<close> halved where the text has \<^verbatim>\<open>alpha-pinene\<close> or \<^verbatim>\<open>beta-pinene\<close>), taken
  in descending order of percent.
\<close>

lemma sorted_rev_of_neg: "sorted (map uminus (xs :: rat list)) \<Longrightarrow> sorted (rev xs)"
  by (induction xs) (auto simp: sorted_append)

lemma pickTopTerpenes_sorted:
  "\<exists>rows :: row list. pickTopTerpenes text limit = map name (take limit rows)
      \<and> sorted (rev (map percent rows))
      \<and> (mset rows = mset (collectTerpenesAsPercent text)
           \<or> mset rows = mset (map halve_pinene (collectTerpenesAsPercent text)))"
proof -
  have s: "sorted (rev (map percent (sort_desc rs)))" for rs
  proof -
    have "sorted (map (\<lambda>r. - percent r) (sort_desc rs))"
      unfolding sort_desc_def by (rule sorted_sort_key)
    then have "sorted (map uminus (map percent (sort_desc rs)))" by (simp add: comp_def)
    then show ?thesis by (rule sorted_rev_of_neg)
  qed
  have m: "mset (sort_desc rs) = mset rs" for rs by (simp add: sort_desc_def)
  define rows0 where "rows0 = collectTerpenesAsPercent text"
  show ?thesis
  proof (cases "rows0 = []")
    case True
    then have "pickTopTerpenes text limit = map name (take limit ([] :: row list))"
      by (simp add: pickTopTerpenes_def rows0_def)
    moreover have "sorted (rev (map percent ([] :: row list)))" by simp
    moreover have "mset ([] :: row list) = mset (collectTerpenesAsPercent text)"
      using True by (simp add: rows0_def)
    ultimately show ?thesis by blast
  next
    case False
    define rows1 where "rows1 = sort_desc rows0"
    define rows2 where "rows2 =
      (if list_ex (\<lambda>r. name r = TStr (str ''alpha-pinene'')) rows1
          \<or> list_ex (\<lambda>r. name r = TStr (str ''beta-pinene'')) rows1
       then sort_desc (map halve_pinene rows1) else rows1)"
    have "pickTopTerpenes text limit = map name (take limit rows2)"
      using False by (simp add: pickTopTerpenes_def Let_def rows2_def rows1_def rows0_def)
    moreover have "sorted (rev (map percent rows2))"
      using s by (simp add: rows2_def rows1_def)
    moreover have "mset rows2 = mset rows0 \<or> mset rows2 = mset (map halve_pinene rows0)"
      by (simp add: rows2_def rows1_def m)
    ultimately show ?thesis unfolding rows0_def by blast
  qed
qed

lemma map_set_keys:
  "map fst (map_set k v kvs) = (if k \<in> set (map fst kvs) then map fst kvs else map fst kvs @ [k])"
  by (induction kvs) (force split: if_splits)+

lemma map_set_names:
  "name v = k \<Longrightarrow> \<forall>(k', r) \<in> set kvs. name r = k' \<Longrightarrow> \<forall>(k', r) \<in> set (map_set k v kvs). name r = k'"
  by (induction kvs) (auto split: if_splits)

lemma best_loop_keys:
  "distinct (map fst best) \<Longrightarrow> \<forall>(k, r) \<in> set best. name r = k \<Longrightarrow>
   distinct (map fst (best_loop rows best)) \<and> (\<forall>(k, r) \<in> set (best_loop rows best). name r = k)"
proof (induction rows arbitrary: best)
  case Nil
  then show ?case by simp
next
  case (Cons r rows)
  have d: "distinct (map fst (map_set (name r) r best))"
    using Cons.prems(1) by (simp add: map_set_keys)
  have n: "\<forall>(k, r') \<in> set (map_set (name r) r best). name r' = k"
    using Cons.prems(2) by (intro map_set_names) auto
  show ?case
    using Cons.IH [OF d n] Cons.IH [OF Cons.prems] by (simp split: option.split)
qed

lemma names_of_values:
  "\<forall>(k, r) \<in> set kvs. name r = k \<Longrightarrow> map name (map snd kvs) = map fst kvs"
  by (induction kvs) auto

lemma collect_distinct: "distinct (map name (collectTerpenesAsPercent text))"
proof -
  have "distinct (map fst (best_loop rows [])) \<and> (\<forall>(k, r) \<in> set (best_loop rows []). name r = k)"
    for rows
    by (rule best_loop_keys) simp_all
  then show ?thesis
    by (simp add: collectTerpenesAsPercent_def Let_def names_of_values del: map_map)
qed

lemma distinct_names_sort_desc:
  "distinct (map name (sort_desc rows)) = distinct (map name rows)"
proof -
  have "mset (map name (sort_desc rows)) = mset (map name rows)"
    by (simp add: sort_desc_def)
  then show ?thesis by (rule mset_eq_imp_distinct_iff)
qed

lemma names_halve_pinene: "map name (map halve_pinene rows) = map name rows"
  by (induction rows) (simp_all add: halve_pinene_def)

lemma distinct_take_map: "distinct (map f xs) \<Longrightarrow> distinct (map f (take n xs))"
  by (simp add: take_map [symmetric])

lemma pickTopTerpenes_distinct: "distinct (pickTopTerpenes text limit)"
proof -
  let ?rows = "collectTerpenesAsPercent text"
  have 1: "distinct (map name (sort_desc ?rows))"
    by (simp add: distinct_names_sort_desc collect_distinct)
  have "distinct (map name (map halve_pinene (sort_desc ?rows)))"
    using 1 by (simp only: names_halve_pinene)
  then have 2: "distinct (map name (sort_desc (map halve_pinene (sort_desc ?rows))))"
    by (simp only: distinct_names_sort_desc)
  show ?thesis
    unfolding pickTopTerpenes_def Let_def
    using 1 2 by (auto intro: distinct_take_map)
qed

lemma pickTopTerpenes_length: "length (pickTopTerpenes text limit) \<le> limit"
  by (simp add: pickTopTerpenes_def Let_def)

lemma parseCoa_terpenes:
  "dominantTerpene (parseCoa url text) = (case pickTopTerpenes text 3 of [] \<Rightarrow> None | n # _ \<Rightarrow> Some n)"
  "otherTerpenes (parseCoa url text) = drop 1 (pickTopTerpenes text 3)"
  by (simp_all add: parseCoa_def Let_def)

text \<open>
  C10. In the record of \<^verbatim>\<open>parseCoa\<close>, for every text: without a dominant terpene there
  are no other terpenes; the other terpenes are pairwise distinct and none is the dominant
  one; and there are at most two of them.
\<close>

theorem parseCoa_terpenes_consistent:
  "(dominantTerpene (parseCoa url text) = None \<longrightarrow> otherTerpenes (parseCoa url text) = [])
   \<and> distinct (otherTerpenes (parseCoa url text))
   \<and> (\<forall>d. dominantTerpene (parseCoa url text) = Some d \<longrightarrow> d \<notin> set (otherTerpenes (parseCoa url text)))
   \<and> length (otherTerpenes (parseCoa url text)) \<le> 2"
proof -
  have d: "distinct (pickTopTerpenes text 3)" by (rule pickTopTerpenes_distinct)
  have l: "length (pickTopTerpenes text 3) \<le> 3" by (rule pickTopTerpenes_length)
  show ?thesis
  proof (cases "pickTopTerpenes text 3")
    case Nil
    then show ?thesis by (simp add: parseCoa_terpenes)
  next
    case (Cons n ns)
    then show ?thesis using d l by (simp add: parseCoa_terpenes)
  qed
qed

lemma pickTop_example:
  "pickTopTerpenes coa_example 3 = [TStr (str ''myrcene''), TStr (str ''limonene''), TStr (str ''caryophyllene'')]"
  by (simp add: coa_example_def str_defs util_defs parser_defs fixFinite.simps)

lemma pickTop_empty: "pickTopTerpenes [] 3 = []"
  by (simp add: str_defs util_defs parser_defs)

theorem parseCoa_terpenes_consistent_witness:
  "dominantTerpene (parseCoa [] coa_example) = Some (TStr (str ''myrcene''))
   \<and> otherTerpenes (parseCoa [] coa_example) = [TStr (str ''limonene''), TStr (str ''caryophyllene'')]
   \<and> TStr (str ''myrcene'') \<notin> set (otherTerpenes (parseCoa [] coa_example))
   \<and> distinct (otherTerpenes (parseCoa [] coa_example))
   \<and> dominantTerpene (parseCoa [] []) = None
   \<and> otherTerpenes (parseCoa [] []) = []"
  using parseCoa_terpenes_consistent [of "[]" coa_example]
    parseCoa_terpenes_consistent [of "[]" "[]"]
  by (simp add: parseCoa_terpenes pickTop_example pickTop_empty)

section \<open>Type and strain\<close>

text \<open>
  C6. \<^verbatim>\<open>extractType\<close>, which fills the type of the record, has no step for a product
  code: on a header such as \<^verbatim>\<open>TRU-Flower-I-FL\<close>, without one of the three words and without
  a "Type:" row, it returns \<^verbatim>\<open>null\<close>. \<^verbatim>\<open>parseType\<close> of the server maps the same text to
  Indica.
\<close>

theorem extractType_no_product_code:
  "extractType (str ''TRU-Flower-I-FL'') = None
   \<and> parseType (str ''TRU-Flower-I-FL'') = Some (str ''Indica'')"
  by (simp add: str_defs util_defs parser_defs
      TYPE_MAP_def re_product_code_def re_type_word_def parseType_def)

text \<open>
  C7. \<^verbatim>\<open>parseStrain\<close> has no pattern for "Item:": a text whose only label is an
  "Item:" row gives \<^verbatim>\<open>null\<close>. The name patterns of the server find the value.
\<close>

theorem parseStrain_no_item:
  "parseStrain (str ''Item: Blue Dream'') = None
   \<and> namePatterns_loop namePatterns (str ''Item: Blue Dream'') = Some (str ''Blue Dream'')"
  by (simp add: str_defs util_defs parser_defs name_tail_def namePatterns_def)

end
